theory Spec2Isabelle
  imports Main
begin

section \<open>Go library functions the program calls\<close>

text \<open>
  Go strings are byte sequences; \<open>len\<close> counts bytes and a slice expression cuts at
  byte offsets. They are modelled as \<open>string\<close> (a list of 8-bit characters).

  \<open>fmt.Sprintf\<close> and \<open>fmt.Errorf\<close> are modelled for the format strings this program
  uses: literal text, \<open>%%\<close>, and verbs applied to string operands. The first argument
  of \<open>doPrintf\<close> lists the verbs that print the operand's text as it is: \<open>%s\<close> and
  \<open>%v\<close> for \<open>Sprintf\<close>; \<open>Errorf\<close> adds \<open>%w\<close> (the operand is the wrapped error's
  message) and \<open>%T\<close> (the operand is the name of the dynamic type). Any other verb is
  reported the way Go reports a verb that does not fit a string operand; flags, widths
  and the verbs \<open>%q\<close>, \<open>%x\<close>, \<open>%X\<close> do not occur in the program and are not modelled.
\<close>

fun extraOperands :: "string list \<Rightarrow> string" where
  "extraOperands [] = []"
| "extraOperands [a] = ''string='' @ a"
| "extraOperands (a # b # rest) = ''string='' @ a @ '', '' @ extraOperands (b # rest)"

definition fmtExtra :: "string list \<Rightarrow> string" where
  "fmtExtra args = (if args = [] then [] else ''%!(EXTRA '' @ extraOperands args @ '')'')"

fun doPrintf :: "string \<Rightarrow> string \<Rightarrow> string list \<Rightarrow> string" where
  "doPrintf vs [] args = fmtExtra args"
| "doPrintf vs [c] args =
     (if c = CHR ''%'' then ''%!(NOVERB)'' @ fmtExtra args else c # fmtExtra args)"
| "doPrintf vs (c # v # f) args =
     (if c \<noteq> CHR ''%'' then c # doPrintf vs (v # f) args
      else if v = CHR ''%'' then CHR ''%'' # doPrintf vs f args
      else (case args of
              [] \<Rightarrow> ''%!'' @ [v] @ ''(MISSING)'' @ doPrintf vs f []
            | a # rest \<Rightarrow>
                (if v \<in> set vs then a else ''%!'' @ [v] @ ''(string='' @ a @ '')'')
                  @ doPrintf vs f rest))"

definition Sprintf :: "string \<Rightarrow> string list \<Rightarrow> string" where
  "Sprintf f args = doPrintf ''sv'' f args"

text \<open>\<open>strconv.Itoa\<close>: the decimal representation of an integer.\<close>

definition digitChar :: "nat \<Rightarrow> char" where
  "digitChar d = ''0123456789'' ! d"

fun decimal :: "nat \<Rightarrow> string" where
  "decimal n = (if n < 10 then [digitChar n] else decimal (n div 10) @ [digitChar (n mod 10)])"

declare decimal.simps [simp del]

definition Itoa :: "int \<Rightarrow> string" where
  "Itoa i = (if i < 0 then CHR ''-'' # decimal (nat (- i)) else decimal (nat i))"

section \<open>Errors\<close>

text \<open>
  An error value produced by a collaborator (the workspace, the environment store, the
  file system, a writer, the prompt, the template box or the template engine) is opaque
  to the program: it is identified by its message. The program's own errors are the
  sentinel \<open>errNoProjectInWorkspace\<close>, the values built by \<open>errors.New\<close> and by
  \<open>fmt.Errorf\<close> without \<open>%w\<close> (\<open>ErrorString\<close>), the values built by \<open>fmt.Errorf\<close>
  with \<open>%w\<close> (\<open>WrapError\<close>: the formatted message and the wrapped error), and
  \<open>ErrTemplateNotFound\<close>. \<open>External\<close> is a collaborator's error returned as it is.
  \<open>NilPointerPanic\<close> is the run-time panic of a method call on a nil interface field.
\<close>

datatype ext_error = ExtError string

fun ext_message :: "ext_error \<Rightarrow> string" where
  "ext_message (ExtError m) = m"

datatype error =
    errNoProjectInWorkspace
  | ErrorString string
  | WrapError string ext_error
  | ErrTemplateNotFound string ext_error
  | External ext_error
  | NilPointerPanic

definition errors_New :: "string \<Rightarrow> error" where
  "errors_New m = ErrorString m"

definition Errorf :: "string \<Rightarrow> string list \<Rightarrow> error" where
  "Errorf f args = ErrorString (doPrintf ''svT'' f args)"

definition ErrorfW :: "string \<Rightarrow> string list \<Rightarrow> ext_error \<Rightarrow> error" where
  \<comment> \<open>\<open>fmt.Errorf\<close> whose last verb is \<open>%w\<close>, applied to the error \<open>e\<close>.\<close>
  "ErrorfW f args e = WrapError (doPrintf ''svwT'' f (args @ [ext_message e])) e"

section \<open>Data model\<close>

text \<open>
  The types of the packages \<open>archer\<close>, \<open>manifest\<close> and \<open>deploy\<close> are declared outside
  the given source; the records below have the fields the source reads. Go's embedded
  structs are record extensions where there is one embedded struct, and fields of the
  embedded struct's name otherwise. Go's \<open>int\<close> fields are embedded as integers: the
  program never computes with them, it only prints them.
\<close>

record Environment =
  Project :: string
  Name :: string
  Region :: string
  AccountID :: string

record AppManifest =
  Name :: string
  Type :: string

record ImageWithPort =
  Port :: int

record LBFargateConfig =
  Path :: string
  CPU :: int
  Memory :: int
  Count :: int

record LBFargateManifest =
  AppManifest :: AppManifest
  Image :: ImageWithPort
  LBFargateConfig :: LBFargateConfig
  Environments :: "string \<rightharpoonup> LBFargateConfig"

text \<open>
  The dynamic type of a decoded manifest: the load-balanced Fargate manifest, or any
  other type, given by its name as \<open>%T\<close> prints it.
\<close>

datatype Manifest = LBFargate LBFargateManifest | OtherManifest string

record CreateLBFargateAppInput =
  App :: LBFargateManifest
  Env :: Environment
  ImageTag :: string

record Box =
  FindString :: "string \<Rightarrow> ext_error + string"

record LBFargateStackConfig = CreateLBFargateAppInput +
  box :: Box

record ImageURLPort =
  URL :: string
  Port :: int

record lbFargateTemplateParams = CreateLBFargateAppInput +
  Priority :: int
  Image :: ImageURLPort

record Parameter =
  ParameterKey :: string
  ParameterValue :: string

record Tag =
  Key :: string
  Value :: string

section \<open>Package-level collaborators and constants outside the source\<close>

text \<open>
  What the source uses and does not define is a field of the record \<open>pkg\<close>, so that
  every theorem holds for all of their values: the three tag keys, the way
  \<open>EnvConf\<close> merges an override, the bundled template box, the template engine
  (\<open>text/template\<close>: parsing, and execution, which returns the text written to the
  buffer so far together with the error, if any), the manifest decoder,
  \<open>filepath.Join\<close>, \<open>strings.TrimSpace\<close>, the project flag read through viper, the
  outcome of running git, the global options, the writers' \<open>Write\<close>, and the
  constructors of the workspace and the store.
\<close>

record Workspace =
  AppNames :: "ext_error + string list"
  ManifestFileName :: "string \<Rightarrow> string"
  ReadManifestFile :: "string \<Rightarrow> ext_error + string"

record EnvironmentStore =
  GetEnvironment :: "string \<Rightarrow> string \<Rightarrow> ext_error + Environment"
  ListEnvironments :: "string \<Rightarrow> ext_error + Environment list"

record Fs =
  MkdirAll :: "string \<Rightarrow> nat \<Rightarrow> ext_error option"
  Create :: "string \<Rightarrow> ext_error option"

record prompter =
  SelectOne :: "string \<Rightarrow> string \<Rightarrow> string list \<Rightarrow> ext_error + string"

text \<open>
  An \<open>io.Writer\<close>: standard output, \<open>ioutil.Discard\<close>, a file returned by
  \<open>fs.Create\<close> (the number tells two files apart even when their paths are the same),
  or any other writer a caller installs.
\<close>

datatype Writer = Stdout | Discard | File nat string | OtherWriter nat

record globalOpts =
  projectName :: string

record 'tpl pkg =
  projectTagKey :: string
  envTagKey :: string
  appTagKey :: string
  overrideConf :: "LBFargateConfig \<Rightarrow> LBFargateConfig \<Rightarrow> LBFargateConfig"
  templates_Box :: Box
  template_Parse :: "string \<Rightarrow> ext_error + 'tpl"
  template_Execute :: "'tpl \<Rightarrow> lbFargateTemplateParams \<Rightarrow> string \<times> ext_error option"
  manifest_UnmarshalApp :: "string \<Rightarrow> ext_error + Manifest"
  filepath_Join :: "string \<Rightarrow> string \<Rightarrow> string"
  strings_TrimSpace :: "string \<Rightarrow> string"
  viper_projectFlag :: string
  git_rev_parse :: "ext_error + string"
  newGlobalOpts :: globalOpts
  osFs :: Fs
  prompt_New :: prompter
  writer_Write :: "Writer \<Rightarrow> string \<Rightarrow> ext_error option"
  workspace_New :: "ext_error + Workspace"
  ssm_NewStore :: "ext_error + EnvironmentStore"

section \<open>The stack configuration of a load-balanced Fargate application\<close>

definition lbFargateAppTemplatePath :: string where
  "lbFargateAppTemplatePath = ''lb-fargate-service/cf.yml''"

definition lbFargateAppParamsPath :: string where
  "lbFargateAppParamsPath = ''lb-fargate-service/params.json''"

definition lbFargateParamProjectNameKey :: string where
  "lbFargateParamProjectNameKey = ''ProjectName''"

definition lbFargateParamEnvNameKey :: string where
  "lbFargateParamEnvNameKey = ''EnvName''"

definition lbFargateParamAppNameKey :: string where
  "lbFargateParamAppNameKey = ''AppName''"

definition lbFargateParamContainerImageKey :: string where
  "lbFargateParamContainerImageKey = ''ContainerImage''"

definition lbFargateParamContainerPortKey :: string where
  "lbFargateParamContainerPortKey = ''ContainerPort''"

definition lbFargateRulePriorityKey :: string where
  "lbFargateRulePriorityKey = ''RulePriority''"

definition lbFargateRulePathKey :: string where
  "lbFargateRulePathKey = ''RulePath''"

definition lbFargateTaskCPUKey :: string where
  "lbFargateTaskCPUKey = ''TaskCPU''"

definition lbFargateTaskMemoryKey :: string where
  "lbFargateTaskMemoryKey = ''TaskMemory''"

definition lbFargateTaskCountKey :: string where
  "lbFargateTaskCountKey = ''TaskCount''"

definition ecrURLFormatString :: string where
  \<comment> \<open>Modelled from the spec: the constant \<open>ecrURLFormatString\<close> is declared in a file of
      the package that is not given; the spec's scenario shows the registry URL as
      account, \<open>.dkr.ecr.\<close>, region, \<open>.amazonaws.com/\<close>, image location.\<close>
  "ecrURLFormatString = ''%s.dkr.ecr.%s.amazonaws.com/%s''"

definition EnvConf :: "'tpl pkg \<Rightarrow> LBFargateManifest \<Rightarrow> string \<Rightarrow> LBFargateConfig" where
  \<comment> \<open>Modelled from the spec: the method \<open>EnvConf\<close> of the manifest is not in the given
      source. The spec says that the configuration is looked up by the environment's name
      and that without an override the base configuration applies unchanged; how an
      override is merged into the base is left to \<open>overrideConf\<close>.\<close>
  "EnvConf g m envName =
     (case Environments m envName of
        None \<Rightarrow> LBFargateConfig m
      | Some target \<Rightarrow> overrideConf g (LBFargateConfig m) target)"

definition NewLBFargateStack :: "'tpl pkg \<Rightarrow> CreateLBFargateAppInput \<Rightarrow> LBFargateStackConfig" where
  "NewLBFargateStack g inp =
     CreateLBFargateAppInput.extend inp (LBFargateStackConfig.fields (templates_Box g))"

definition maxLen :: nat where
  "maxLen = 128"

definition StackName :: "LBFargateStackConfig \<Rightarrow> string" where
  "StackName c =
     (let stackName = Sprintf ''%s-%s-%s-app''
            [Project (Env c), Environment.Name (Env c), AppManifest.Name (AppManifest (App c))]
      in if length stackName > maxLen
         then drop (length stackName - maxLen) stackName
         else stackName)"

definition toTemplateParams :: "'tpl pkg \<Rightarrow> LBFargateStackConfig \<Rightarrow> lbFargateTemplateParams" where
  "toTemplateParams g c =
     (let imgLoc = Sprintf ''%s/%s/%s:%s''
            [Project (Env c), Environment.Name (Env c), AppManifest.Name (AppManifest (App c)),
             ImageTag c];
          url = Sprintf ecrURLFormatString [AccountID (Env c), Region (Env c), imgLoc]
      in \<lparr> App = \<lparr> AppManifest = AppManifest (App c),
                    Image = \<lparr> ImageWithPort.Port = 0 \<rparr>,
                    LBFargateConfig = EnvConf g (App c) (Environment.Name (Env c)),
                    Environments = Map.empty \<rparr>,
           Env = Env c,
           ImageTag = [],
           Priority = 1,
           Image = \<lparr> URL = url, Port = ImageWithPort.Port (LBFargateManifest.Image (App c)) \<rparr> \<rparr>)"

definition Parameters :: "'tpl pkg \<Rightarrow> LBFargateStackConfig \<Rightarrow> Parameter list" where
  "Parameters g c =
     (let templateParams = toTemplateParams g c in
      [ \<lparr> ParameterKey = lbFargateParamProjectNameKey,
          ParameterValue = Project (Env templateParams) \<rparr>,
        \<lparr> ParameterKey = lbFargateParamEnvNameKey,
          ParameterValue = Environment.Name (Env templateParams) \<rparr>,
        \<lparr> ParameterKey = lbFargateParamAppNameKey,
          ParameterValue = AppManifest.Name (AppManifest (App templateParams)) \<rparr>,
        \<lparr> ParameterKey = lbFargateParamContainerImageKey,
          ParameterValue = URL (Image templateParams) \<rparr>,
        \<lparr> ParameterKey = lbFargateParamContainerPortKey,
          ParameterValue = Itoa (Port (Image templateParams)) \<rparr>,
        \<lparr> ParameterKey = lbFargateRulePriorityKey,
          ParameterValue = Itoa (Priority templateParams) \<rparr>,
        \<lparr> ParameterKey = lbFargateRulePathKey,
          ParameterValue = Path (LBFargateConfig (App templateParams)) \<rparr>,
        \<lparr> ParameterKey = lbFargateTaskCPUKey,
          ParameterValue = Itoa (CPU (LBFargateConfig (App templateParams))) \<rparr>,
        \<lparr> ParameterKey = lbFargateTaskMemoryKey,
          ParameterValue = Itoa (Memory (LBFargateConfig (App templateParams))) \<rparr>,
        \<lparr> ParameterKey = lbFargateTaskCountKey,
          ParameterValue = Itoa (Count (LBFargateConfig (App templateParams))) \<rparr> ])"

definition Tags :: "'tpl pkg \<Rightarrow> LBFargateStackConfig \<Rightarrow> Tag list" where
  "Tags g c =
     [ \<lparr> Key = projectTagKey g, Value = Project (Env c) \<rparr>,
       \<lparr> Key = envTagKey g, Value = Environment.Name (Env c) \<rparr>,
       \<lparr> Key = appTagKey g, Value = AppManifest.Name (AppManifest (App c)) \<rparr> ]"


definition Template :: "'tpl pkg \<Rightarrow> LBFargateStackConfig \<Rightarrow> string \<times> error option" where
  "Template g c =
     (case FindString (box c) lbFargateAppTemplatePath of
        Inl err \<Rightarrow> ([], Some (ErrTemplateNotFound lbFargateAppTemplatePath err))
      | Inr content \<Rightarrow>
          (case template_Parse g content of
             Inl err \<Rightarrow>
               ([], Some (ErrorfW ''parse CloudFormation template for %s: %w''
                            [Type (AppManifest (App c))] err))
           | Inr tpl \<Rightarrow>
               (case template_Execute g tpl (toTemplateParams g c) of
                  (buf, Some err) \<Rightarrow>
                    ([], Some (ErrorfW ''execute CloudFormation template for %s: %w''
                                 [Type (AppManifest (App c))] err))
                | (buf, None) \<Rightarrow> (buf, None))))"

definition SerializedParameters :: "'tpl pkg \<Rightarrow> LBFargateStackConfig \<Rightarrow> string \<times> error option" where
  "SerializedParameters g c =
     (case FindString (box c) lbFargateAppParamsPath of
        Inl err \<Rightarrow> ([], Some (ErrTemplateNotFound lbFargateAppParamsPath err))
      | Inr content \<Rightarrow>
          (case template_Parse g content of
             Inl err \<Rightarrow>
               ([], Some (ErrorfW ''parse stack configuration for %s: %w''
                            [Type (AppManifest (App c))] err))
           | Inr tpl \<Rightarrow>
               (case template_Execute g tpl (toTemplateParams g c) of
                  (buf, Some err) \<Rightarrow>
                    ([], Some (ErrorfW ''execute stack configuration for %s: %w''
                                 [Type (AppManifest (App c))] err))
                | (buf, None) \<Rightarrow> (buf, None))))"

section \<open>The packaging command\<close>

text \<open>
  \<open>PackageAppOpts\<close> embeds the global options. The constructor leaves the fields
  \<open>ws\<close> and \<open>envStore\<close> nil (\<open>None\<close>) until \<open>PreRunE\<close> installs them; a method call
  on a nil interface panics.

  The effects of a run are recorded in a \<open>World\<close>: the calls of \<open>GetEnvironment\<close>
  (project, environment), the calls of the file system, and the calls of \<open>Write\<close>
  (writer, bytes), each in the order they were made. A collaborator answers a call as a
  function of the call's arguments.
\<close>

record PackageAppOpts = globalOpts +
  AppName :: string
  EnvName :: string
  Tag :: string
  OutputDir :: string
  ws :: "Workspace option"
  envStore :: "EnvironmentStore option"
  templateWriter :: Writer
  paramsWriter :: Writer
  fs :: Fs
  prompt :: prompter

datatype FsCall = MkdirAllCall string nat | CreateCall string

record World =
  getEnvironmentCalls :: "(string \<times> string) list"
  fsCalls :: "FsCall list"
  writeCalls :: "(Writer \<times> string) list"

definition appPackageAppNamePrompt :: string where
  "appPackageAppNamePrompt =
     ''Which application would you like to generate a CloudFormation template for?''"

definition appPackageEnvNamePrompt :: string where
  "appPackageEnvNamePrompt = ''Which environment would you like to create this stack for?''"

definition NewPackageAppOpts :: "'tpl pkg \<Rightarrow> PackageAppOpts" where
  "NewPackageAppOpts g =
     (case git_rev_parse g of
        Inl err \<Rightarrow>
          \<lparr> projectName = projectName (newGlobalOpts g),
            AppName = [], EnvName = [], Tag = ''latest'', OutputDir = [],
            ws = None, envStore = None,
            templateWriter = Stdout, paramsWriter = Discard,
            fs = osFs g, prompt = prompt_New g \<rparr>
      | Inr commitID \<Rightarrow>
          \<lparr> projectName = projectName (newGlobalOpts g),
            AppName = [], EnvName = [],
            Tag = Sprintf ''manual-%s'' [strings_TrimSpace g commitID], OutputDir = [],
            ws = None, envStore = None,
            templateWriter = Stdout, paramsWriter = Discard,
            fs = osFs g, prompt = prompt_New g \<rparr>)"

definition listAppNames :: "PackageAppOpts \<Rightarrow> error + string list" where
  "listAppNames opts =
     (case ws opts of
        None \<Rightarrow> Inl NilPointerPanic
      | Some w \<Rightarrow>
          (case AppNames w of
             Inl err \<Rightarrow> Inl (ErrorfW ''list applications in workspace: %w'' [] err)
           | Inr names \<Rightarrow> Inr names))"

definition listEnvNames :: "'tpl pkg \<Rightarrow> PackageAppOpts \<Rightarrow> error + string list" where
  "listEnvNames g opts =
     (let project = viper_projectFlag g in
      case envStore opts of
        None \<Rightarrow> Inl NilPointerPanic
      | Some st \<Rightarrow>
          (case ListEnvironments st project of
             Inl err \<Rightarrow> Inl (ErrorfW ''list environments for project %s: %w'' [project] err)
           | Inr envs \<Rightarrow> Inr (map Environment.Name envs)))"

fun contains :: "string \<Rightarrow> string list \<Rightarrow> bool" where
  "contains s [] = False"
| "contains s (item # items) = (if s = item then True else contains s items)"

text \<open>
  \<open>Ask\<close> updates the options in place, so the options come back with the error: a name
  chosen for the application stays when the prompt for the environment fails.
\<close>

definition Ask :: "'tpl pkg \<Rightarrow> PackageAppOpts \<Rightarrow> PackageAppOpts \<times> error option" where
  "Ask g opts =
     (case (if AppName opts = [] then
              (case listAppNames opts of
                 Inl err \<Rightarrow> Inl err
               | Inr names \<Rightarrow>
                   if length names = 0 then
                     Inl (errors_New
                       ''there are no applications in the workspace, run `archer init` first'')
                   else
                     (case SelectOne (prompt opts) appPackageAppNamePrompt [] names of
                        Inl err \<Rightarrow> Inl (ErrorfW ''prompt application name: %w'' [] err)
                      | Inr app \<Rightarrow> Inr (opts\<lparr>AppName := app\<rparr>)))
            else Inr opts) of
        Inl err \<Rightarrow> (opts, Some err)
      | Inr opts1 \<Rightarrow>
          if EnvName opts1 = [] then
            (case listEnvNames g opts1 of
               Inl err \<Rightarrow> (opts1, Some err)
             | Inr names \<Rightarrow>
                 (case SelectOne (prompt opts1) appPackageEnvNamePrompt [] names of
                    Inl err \<Rightarrow> (opts1, Some (ErrorfW ''prompt environment name: %w'' [] err))
                  | Inr env \<Rightarrow> (opts1\<lparr>EnvName := env\<rparr>, None)))
          else (opts1, None))"

definition callGetEnvironment :: "World \<Rightarrow> string \<Rightarrow> string \<Rightarrow> World" where
  \<comment> \<open>The record of one call of \<open>envStore.GetEnvironment\<close>.\<close>
  "callGetEnvironment w project env =
     w\<lparr>getEnvironmentCalls := getEnvironmentCalls w @ [(project, env)]\<rparr>"

definition Validate :: "PackageAppOpts \<Rightarrow> World \<Rightarrow> World \<times> error option" where
  "Validate opts w =
     (if projectName opts = [] then (w, Some errNoProjectInWorkspace)
      else
        (case (if AppName opts \<noteq> [] then
                 (case listAppNames opts of
                    Inl err \<Rightarrow> Some err
                  | Inr names \<Rightarrow>
                      if \<not> contains (AppName opts) names then
                        Some (Errorf ''application '%s' does not exist in the workspace''
                                [AppName opts])
                      else None)
               else None) of
           Some err \<Rightarrow> (w, Some err)
         | None \<Rightarrow>
             if EnvName opts \<noteq> [] then
               (case envStore opts of
                  None \<Rightarrow> (w, Some NilPointerPanic)
                | Some st \<Rightarrow>
                    (case GetEnvironment st (projectName opts) (EnvName opts) of
                       Inl err \<Rightarrow>
                         (callGetEnvironment w (projectName opts) (EnvName opts),
                          Some (External err))
                     | Inr env \<Rightarrow>
                         (callGetEnvironment w (projectName opts) (EnvName opts), None)))
             else (w, None)))"


definition getTemplates ::
  "'tpl pkg \<Rightarrow> PackageAppOpts \<Rightarrow> Environment \<Rightarrow> string \<times> string \<times> error option" where
  "getTemplates g opts env =
     (case ws opts of
        None \<Rightarrow> ([], [], Some NilPointerPanic)
      | Some w \<Rightarrow>
          (case ReadManifestFile w (ManifestFileName w (AppName opts)) of
             Inl err \<Rightarrow> ([], [], Some (External err))
           | Inr raw \<Rightarrow>
               (case manifest_UnmarshalApp g raw of
                  Inl err \<Rightarrow> ([], [], Some (External err))
                | Inr mft \<Rightarrow>
                    (case mft of
                       LBFargate m \<Rightarrow>
                         (let stack = NewLBFargateStack g
                                \<lparr> App = m, Env = env, ImageTag = Tag opts \<rparr>
                          in case Template g stack of
                               (tpl, Some err) \<Rightarrow> ([], [], Some err)
                             | (tpl, None) \<Rightarrow>
                                 (case SerializedParameters g stack of
                                    (params, err) \<Rightarrow> (tpl, params, err)))
                     | OtherManifest t \<Rightarrow>
                         ([], [],
                          Some (Errorf ''create CloudFormation template for manifest of type %T''
                                  [t]))))))"

text \<open>
  \<open>fs.MkdirAll\<close> and \<open>fs.Create\<close> are recorded as they are called. The file that
  \<open>Create\<close> returns is numbered by the length of the record at the call, which no
  other file shares. The options are updated in place: when the second file cannot be
  created, the template writer is already the first file. The permission 0755 is 493.
\<close>

definition setFileWriters ::
  "'tpl pkg \<Rightarrow> PackageAppOpts \<Rightarrow> World \<Rightarrow> PackageAppOpts \<times> World \<times> error option" where
  "setFileWriters g opts w =
     (let w1 = w\<lparr>fsCalls := fsCalls w @ [MkdirAllCall (OutputDir opts) 493]\<rparr> in
      case MkdirAll (fs opts) (OutputDir opts) 493 of
        Some err \<Rightarrow> (opts, w1, Some (ErrorfW ''create directory %s: %w'' [OutputDir opts] err))
      | None \<Rightarrow>
          (let templatePath = filepath_Join g (OutputDir opts)
                 (Sprintf ''%s.stack.yml'' [AppName opts]);
               w2 = w1\<lparr>fsCalls := fsCalls w1 @ [CreateCall templatePath]\<rparr>
           in case Create (fs opts) templatePath of
                Some err \<Rightarrow> (opts, w2, Some (ErrorfW ''create file %s: %w'' [templatePath] err))
              | None \<Rightarrow>
                  (let opts1 = opts\<lparr>templateWriter := File (length (fsCalls w1)) templatePath\<rparr>;
                       paramsPath = filepath_Join g (OutputDir opts1)
                         (Sprintf ''%s-%s.params.json'' [AppName opts1, EnvName opts1]);
                       w3 = w2\<lparr>fsCalls := fsCalls w2 @ [CreateCall paramsPath]\<rparr>
                   in case Create (fs opts1) paramsPath of
                        Some err \<Rightarrow>
                          (opts1, w3, Some (ErrorfW ''create file %s: %w'' [paramsPath] err))
                      | None \<Rightarrow>
                          (opts1\<lparr>paramsWriter := File (length (fsCalls w2)) paramsPath\<rparr>, w3,
                           None))))"

text \<open>
  A call of \<open>Write\<close> is recorded whether it succeeds or not. \<open>ioutil.Discard\<close>
  accepts every write; every other writer's outcome is the collaborator's.
\<close>

definition writeOutcome :: "'tpl pkg \<Rightarrow> Writer \<Rightarrow> string \<Rightarrow> ext_error option" where
  "writeOutcome g wr bytes = (case wr of Discard \<Rightarrow> None | _ \<Rightarrow> writer_Write g wr bytes)"

definition Write :: "'tpl pkg \<Rightarrow> Writer \<Rightarrow> string \<Rightarrow> World \<Rightarrow> World \<times> ext_error option" where
  "Write g wr bytes w = (w\<lparr>writeCalls := writeCalls w @ [(wr, bytes)]\<rparr>, writeOutcome g wr bytes)"

definition Execute ::
  "'tpl pkg \<Rightarrow> PackageAppOpts \<Rightarrow> World \<Rightarrow> PackageAppOpts \<times> World \<times> error option" where
  "Execute g opts w =
     (case envStore opts of
        None \<Rightarrow> (opts, w, Some NilPointerPanic)
      | Some st \<Rightarrow>
          (let w1 = callGetEnvironment w (projectName opts) (EnvName opts) in
           case GetEnvironment st (projectName opts) (EnvName opts) of
             Inl err \<Rightarrow> (opts, w1, Some (External err))
           | Inr env \<Rightarrow>
               (case (if OutputDir opts \<noteq> [] then setFileWriters g opts w1
                      else (opts, w1, None)) of
                  (opts2, w2, Some err) \<Rightarrow> (opts2, w2, Some err)
                | (opts2, w2, None) \<Rightarrow>
                    (case getTemplates g opts2 env of
                       (tpl, params, Some err) \<Rightarrow> (opts2, w2, Some err)
                     | (tpl, params, None) \<Rightarrow>
                         (case Write g (templateWriter opts2) tpl w2 of
                            (w3, Some err) \<Rightarrow> (opts2, w3, Some (External err))
                          | (w3, None) \<Rightarrow>
                              (case Write g (paramsWriter opts2) params w3 of
                                 (w4, err) \<Rightarrow> (opts2, w4, map_option External err)))))))"

text \<open>The two hooks of the command built by \<open>BuildAppPackageCmd\<close>.\<close>

definition PreRunE ::
  "'tpl pkg \<Rightarrow> PackageAppOpts \<Rightarrow> World \<Rightarrow> PackageAppOpts \<times> World \<times> error option" where
  "PreRunE g opts w =
     (case workspace_New g of
        Inl err \<Rightarrow> (opts, w, Some (ErrorfW ''new workspace: %w'' [] err))
      | Inr wsp \<Rightarrow>
          (let opts1 = opts\<lparr>ws := Some wsp\<rparr> in
           case ssm_NewStore g of
             Inl err \<Rightarrow>
               (opts1, w,
                Some (ErrorfW ''couldn't connect to application datastore: %w'' [] err))
           | Inr store \<Rightarrow>
               (let opts2 = opts1\<lparr>envStore := Some store\<rparr> in
                case Validate opts2 w of (w1, err) \<Rightarrow> (opts2, w1, err))))"

definition RunE ::
  "'tpl pkg \<Rightarrow> PackageAppOpts \<Rightarrow> World \<Rightarrow> PackageAppOpts \<times> World \<times> error option" where
  "RunE g opts w =
     (case Ask g opts of
        (opts1, Some err) \<Rightarrow> (opts1, w, Some err)
      | (opts1, None) \<Rightarrow>
          (case Validate opts1 w of
             (w1, Some err) \<Rightarrow> (opts1, w1, Some err)
           | (w1, None) \<Rightarrow> Execute g opts1 w1))"

text \<open>
  One invocation of the command. The flags have been parsed into the options; cobra
  then runs \<open>PreRunE\<close> and, when it returns no error, \<open>RunE\<close>.
\<close>

definition runCommand ::
  "'tpl pkg \<Rightarrow> PackageAppOpts \<Rightarrow> World \<Rightarrow> PackageAppOpts \<times> World \<times> error option" where
  "runCommand g opts w =
     (case PreRunE g opts w of
        (opts1, w1, Some err) \<Rightarrow> (opts1, w1, Some err)
      | (opts1, w1, None) \<Rightarrow> RunE g opts1 w1)"


section \<open>The natural stack name, in the words of the specification\<close>

definition naturalStackName :: "LBFargateStackConfig \<Rightarrow> string" where
  "naturalStackName c =
     Project (Env c) @ ''-'' @ Environment.Name (Env c) @ ''-''
       @ AppManifest.Name (AppManifest (App c)) @ ''-app''"

section \<open>The scenario of the specification, and collaborators to run it with\<close>

definition demoEnv :: Environment where
  "demoEnv = \<lparr> Project = ''demo'', Name = ''test'', Region = ''us-east-1'', AccountID = ''123'' \<rparr>"

definition demoManifest :: LBFargateManifest where
  "demoManifest =
     \<lparr> AppManifest = \<lparr> Name = ''frontend'', Type = ''Load Balanced Web App'' \<rparr>,
       Image = \<lparr> ImageWithPort.Port = 80 \<rparr>,
       LBFargateConfig = \<lparr> Path = ''*'', CPU = 256, Memory = 512, Count = 1 \<rparr>,
       Environments = Map.empty \<rparr>"

text \<open>
  A small template engine for the examples: a template is its source text, in which
  \<open>$N\<close> stands for the application's name and \<open>$E\<close> for the environment's name;
  any other name after \<open>$\<close> is a field the parameters do not have, and execution
  stops there with the text written so far.
\<close>

fun demoExecute :: "string \<Rightarrow> lbFargateTemplateParams \<Rightarrow> string \<times> ext_error option" where
  "demoExecute [] p = ([], None)"
| "demoExecute [c] p = ([c], None)"
| "demoExecute (c # d # rest) p =
     (if c \<noteq> CHR ''$'' then
        (case demoExecute (d # rest) p of (out, err) \<Rightarrow> (c # out, err))
      else if d = CHR ''N'' then
        (case demoExecute rest p of
           (out, err) \<Rightarrow> (AppManifest.Name (AppManifest (App p)) @ out, err))
      else if d = CHR ''E'' then
        (case demoExecute rest p of (out, err) \<Rightarrow> (Environment.Name (Env p) @ out, err))
      else ([], Some (ExtError (''can't evaluate field '' @ [d]))))"

text \<open>
  \<open>filepath.Join\<close> for the examples: it agrees with Go's on a directory written as a
  clean relative path, with or without \<open>./\<close> in front, and a plain file name.
\<close>

fun dropDotSlash :: "string \<Rightarrow> string" where
  "dropDotSlash (c # d # rest) =
     (if c = CHR ''.'' \<and> d = CHR ''/'' then dropDotSlash rest else c # d # rest)"
| "dropDotSlash path = path"

definition demoJoin :: "string \<Rightarrow> string \<Rightarrow> string" where
  "demoJoin dir name =
     (let d = dropDotSlash dir in if d = [] \<or> d = ''.'' then name else d @ ''/'' @ name)"

definition demoBox :: Box where
  "demoBox =
     \<lparr> FindString = (\<lambda>path.
         if path = lbFargateAppTemplatePath then Inr ''Service: $N''
         else if path = lbFargateAppParamsPath then Inr ''AppName: $N, EnvName: $E''
         else Inl (ExtError ''file does not exist'')) \<rparr>"

definition brokenBox :: Box where
  "brokenBox = \<lparr> FindString = (\<lambda>path. Inr ''Service: $X'') \<rparr>"

definition demoWorkspace :: Workspace where
  "demoWorkspace =
     \<lparr> AppNames = Inr [''frontend'', ''worker''],
       ManifestFileName = (\<lambda>app. app @ ''-app.yml''),
       ReadManifestFile = (\<lambda>path.
         if path = ''frontend-app.yml'' then Inr ''type: Load Balanced Web App''
         else if path = ''worker-app.yml'' then Inr ''type: Worker''
         else Inl (ExtError ''no such file'')) \<rparr>"

definition demoStore :: EnvironmentStore where
  "demoStore =
     \<lparr> GetEnvironment = (\<lambda>project env.
         if project = ''demo'' \<and> env = ''test'' then Inr demoEnv
         else Inl (ExtError ''environment not found'')),
       ListEnvironments = (\<lambda>project. if project = ''demo'' then Inr [demoEnv] else Inr []) \<rparr>"

definition demoFs :: Fs where
  "demoFs = \<lparr> MkdirAll = (\<lambda>path perm. None), Create = (\<lambda>path. None) \<rparr>"

definition demoPrompter :: prompter where
  "demoPrompter =
     \<lparr> SelectOne = (\<lambda>msg dflt options.
         case options of [] \<Rightarrow> Inl (ExtError ''nothing to select'') | x # _ \<Rightarrow> Inr x) \<rparr>"

definition demoPkg :: "string pkg" where
  "demoPkg =
     \<lparr> projectTagKey = ''ecs-project'',
       envTagKey = ''ecs-environment'',
       appTagKey = ''ecs-application'',
       overrideConf = (\<lambda>base target. target),
       templates_Box = demoBox,
       template_Parse = (\<lambda>content. Inr content),
       template_Execute = demoExecute,
       manifest_UnmarshalApp = (\<lambda>raw.
         if raw = ''type: Load Balanced Web App'' then Inr (LBFargate demoManifest)
         else if raw = ''type: Worker'' then Inr (OtherManifest ''*manifest.WorkerManifest'')
         else Inl (ExtError ''invalid manifest type'')),
       filepath_Join = demoJoin,
       strings_TrimSpace = takeWhile (\<lambda>c. c \<noteq> CHR 0x0A),
       viper_projectFlag = ''demo'',
       git_rev_parse = Inl (ExtError ''exit status 128''),
       newGlobalOpts = \<lparr> projectName = ''demo'' \<rparr>,
       osFs = demoFs,
       prompt_New = demoPrompter,
       writer_Write = (\<lambda>wr bytes. None),
       workspace_New = Inr demoWorkspace,
       ssm_NewStore = Inr demoStore \<rparr>"

definition demoStack :: LBFargateStackConfig where
  "demoStack =
     NewLBFargateStack demoPkg \<lparr> App = demoManifest, Env = demoEnv, ImageTag = ''latest'' \<rparr>"

definition longStack :: LBFargateStackConfig where
  "longStack =
     NewLBFargateStack demoPkg
       \<lparr> App = demoManifest, Env = demoEnv\<lparr>Project := replicate 130 (CHR ''p'')\<rparr>,
         ImageTag = ''latest'' \<rparr>"

definition demoOpts :: PackageAppOpts where
  "demoOpts =
     (NewPackageAppOpts demoPkg)
       \<lparr>AppName := ''frontend'', EnvName := ''test'',
        ws := Some demoWorkspace, envStore := Some demoStore\<rparr>"

definition emptyWorld :: World where
  "emptyWorld = \<lparr> getEnvironmentCalls = [], fsCalls = [], writeCalls = [] \<rparr>"

definition brokenPkg :: "string pkg" where
  \<comment> \<open>The same collaborators with a box whose templates refer to a missing field.\<close>
  "brokenPkg = demoPkg\<lparr>templates_Box := brokenBox\<rparr>"

definition brokenParamsBox :: Box where
  "brokenParamsBox =
     \<lparr> FindString = (\<lambda>path.
         if path = lbFargateAppTemplatePath then Inr ''Service: $N''
         else Inr ''AppName: $N, Port: $P'') \<rparr>"

definition brokenParamsPkg :: "string pkg" where
  \<comment> \<open>The same collaborators with a box whose parameter template alone refers to a
      missing field.\<close>
  "brokenParamsPkg = demoPkg\<lparr>templates_Box := brokenParamsBox\<rparr>"

definition flagOpts :: PackageAppOpts where
  \<comment> \<open>The options after the flags \<open>-n frontend -e test\<close> have been parsed.\<close>
  "flagOpts = (NewPackageAppOpts demoPkg)\<lparr>AppName := ''frontend'', EnvName := ''test''\<rparr>"

definition brokenPipePkg :: "string pkg" where
  \<comment> \<open>The same collaborators with writers that fail (but for the discard writer).\<close>
  "brokenPipePkg = demoPkg\<lparr>writer_Write := (\<lambda>wr bytes. Some (ExtError ''broken pipe''))\<rparr>"

definition readOnlyFs :: Fs where
  \<comment> \<open>A file system that creates directories and refuses to create files.\<close>
  "readOnlyFs =
     \<lparr> MkdirAll = (\<lambda>path perm. None), Create = (\<lambda>path. Some (ExtError ''permission denied'')) \<rparr>"

definition brokenStack :: LBFargateStackConfig where
  "brokenStack =
     NewLBFargateStack brokenPkg \<lparr> App = demoManifest, Env = demoEnv, ImageTag = ''latest'' \<rparr>"


section \<open>Formatting with the program's format strings\<close>

lemma Sprintf_image_location:
  "Sprintf ''%s/%s/%s:%s'' [a, b, c, d] = a @ ''/'' @ b @ ''/'' @ c @ '':'' @ d"
  by (simp add: Sprintf_def fmtExtra_def)

lemma Sprintf_ecr_url:
  "Sprintf ecrURLFormatString [a, b, c] = a @ ''.dkr.ecr.'' @ b @ ''.amazonaws.com/'' @ c"
  by (simp add: Sprintf_def fmtExtra_def ecrURLFormatString_def)

lemma Sprintf_stack_name:
  "Sprintf ''%s-%s-%s-app'' [a, b, c] = a @ ''-'' @ b @ ''-'' @ c @ ''-app''"
  by (simp add: Sprintf_def fmtExtra_def)

lemma demoStack_fields:
  "Env demoStack = demoEnv" "App demoStack = demoManifest" "ImageTag demoStack = ''latest''"
  "box demoStack = demoBox"
  by (simp_all add: demoStack_def NewLBFargateStack_def CreateLBFargateAppInput.defs
      LBFargateStackConfig.defs demoPkg_def)

lemma longStack_fields:
  "Env longStack = demoEnv\<lparr>Project := replicate 130 (CHR ''p'')\<rparr>" "App longStack = demoManifest"
  by (simp_all add: longStack_def NewLBFargateStack_def CreateLBFargateAppInput.defs
      LBFargateStackConfig.defs demoPkg_def)

section \<open>The image URL\<close>

lemma URL_toTemplateParams:
  "URL (Image (toTemplateParams g c)) =
     AccountID (Env c) @ ''.dkr.ecr.'' @ Region (Env c) @ ''.amazonaws.com/''
       @ Project (Env c) @ ''/'' @ Environment.Name (Env c) @ ''/''
       @ AppManifest.Name (AppManifest (App c)) @ '':'' @ ImageTag c"
  by (simp add: toTemplateParams_def Sprintf_image_location Sprintf_ecr_url)

text \<open>
  C1: for every manifest, environment and image tag, \<open>toTemplateParams\<close> computes the
  image location \<open>{project}/{environment}/{appName}:{tag}\<close> and the image URL is the
  registry-URL format string applied to the environment's account id, its region and
  that location, that is account, \<open>.dkr.ecr.\<close>, region, \<open>.amazonaws.com/\<close>, location.
  For the scenario of the specification (manifest \<open>frontend\<close>, environment
  \<open>demo\<close>/\<open>test\<close>, account \<open>123\<close>, region \<open>us-east-1\<close>, tag \<open>latest\<close>) the URL is
  \<open>123.dkr.ecr.us-east-1.amazonaws.com/demo/test/frontend:latest\<close>.
\<close>

theorem image_url_composed:
  "URL (Image (toTemplateParams g c)) =
     Sprintf ecrURLFormatString
       [AccountID (Env c), Region (Env c),
        Project (Env c) @ ''/'' @ Environment.Name (Env c) @ ''/''
          @ AppManifest.Name (AppManifest (App c)) @ '':'' @ ImageTag c]
   \<and> URL (Image (toTemplateParams g c)) =
       AccountID (Env c) @ ''.dkr.ecr.'' @ Region (Env c) @ ''.amazonaws.com/''
         @ Project (Env c) @ ''/'' @ Environment.Name (Env c) @ ''/''
         @ AppManifest.Name (AppManifest (App c)) @ '':'' @ ImageTag c
   \<and> URL (Image (toTemplateParams demoPkg demoStack)) =
       ''123.dkr.ecr.us-east-1.amazonaws.com/demo/test/frontend:latest''"
proof (intro conjI)
  show "URL (Image (toTemplateParams g c)) =
     Sprintf ecrURLFormatString
       [AccountID (Env c), Region (Env c),
        Project (Env c) @ ''/'' @ Environment.Name (Env c) @ ''/''
          @ AppManifest.Name (AppManifest (App c)) @ '':'' @ ImageTag c]"
    by (simp add: toTemplateParams_def Sprintf_image_location)
  show "URL (Image (toTemplateParams g c)) =
       AccountID (Env c) @ ''.dkr.ecr.'' @ Region (Env c) @ ''.amazonaws.com/''
         @ Project (Env c) @ ''/'' @ Environment.Name (Env c) @ ''/''
         @ AppManifest.Name (AppManifest (App c)) @ '':'' @ ImageTag c"
    by (rule URL_toTemplateParams)
  show "URL (Image (toTemplateParams demoPkg demoStack)) =
       ''123.dkr.ecr.us-east-1.amazonaws.com/demo/test/frontend:latest''"
    by (simp add: URL_toTemplateParams demoStack_fields demoEnv_def demoManifest_def)
qed

section \<open>The stack name\<close>

lemma StackName_natural:
  "StackName c =
     (if length (naturalStackName c) \<le> 128 then naturalStackName c
      else drop (length (naturalStackName c) - 128) (naturalStackName c))"
  by (simp add: StackName_def Sprintf_stack_name naturalStackName_def maxLen_def Let_def)

text \<open>
  C2: for every environment and manifest, \<open>StackName\<close> returns the string
  \<open>{project}-{environment}-{appName}-app\<close> when its length is at most 128, and
  otherwise exactly its last 128 characters; the returned name never exceeds 128
  characters. \<open>StackName\<close> returns a string and no error, so an over-long name is
  truncated, never rejected.
\<close>

theorem StackName_bounded:
  "naturalStackName c =
     Project (Env c) @ ''-'' @ Environment.Name (Env c) @ ''-''
       @ AppManifest.Name (AppManifest (App c)) @ ''-app''
   \<and> StackName c =
       (if length (naturalStackName c) \<le> 128 then naturalStackName c
        else drop (length (naturalStackName c) - 128) (naturalStackName c))
   \<and> length (StackName c) \<le> 128
   \<and> length (StackName c) = min 128 (length (naturalStackName c))"
proof (intro conjI)
  show "naturalStackName c =
     Project (Env c) @ ''-'' @ Environment.Name (Env c) @ ''-''
       @ AppManifest.Name (AppManifest (App c)) @ ''-app''"
    by (simp add: naturalStackName_def)
  show "StackName c =
       (if length (naturalStackName c) \<le> 128 then naturalStackName c
        else drop (length (naturalStackName c) - 128) (naturalStackName c))"
    by (rule StackName_natural)
  show "length (StackName c) \<le> 128"
    by (simp add: StackName_natural)
  show "length (StackName c) = min 128 (length (naturalStackName c))"
    by (simp add: StackName_natural)
qed

theorem StackName_bounded_witness:
  "StackName demoStack = ''demo-test-frontend-app''
   \<and> length (naturalStackName longStack) = 148
   \<and> StackName longStack = replicate 110 (CHR ''p'') @ ''-test-frontend-app''
   \<and> length (StackName longStack) = 128"
  using StackName_bounded [of demoStack] StackName_bounded [of longStack]
  by (simp add: demoStack_fields longStack_fields demoEnv_def demoManifest_def)

section \<open>The routing-rule priority\<close>

text \<open>
  C9: for every manifest, environment and image tag, the routing-rule priority that
  \<open>toTemplateParams\<close> assigns is the same constant, 1: it depends neither on the path,
  nor on the manifest, nor on the environment.
\<close>

theorem rule_priority_constant:
  "Priority (toTemplateParams g c) = 1"
  by (simp add: toTemplateParams_def Let_def)


section \<open>The parameters and the tags of the stack\<close>

lemmas param_keys =
  lbFargateParamProjectNameKey_def lbFargateParamEnvNameKey_def lbFargateParamAppNameKey_def
  lbFargateParamContainerImageKey_def lbFargateParamContainerPortKey_def
  lbFargateRulePriorityKey_def lbFargateRulePathKey_def lbFargateTaskCPUKey_def
  lbFargateTaskMemoryKey_def lbFargateTaskCountKey_def

lemma toTemplateParams_fields:
  "Env (toTemplateParams g c) = Env c"
  "AppManifest (App (toTemplateParams g c)) = AppManifest (App c)"
  "LBFargateConfig (App (toTemplateParams g c)) = EnvConf g (App c) (Environment.Name (Env c))"
  "Port (Image (toTemplateParams g c)) = ImageWithPort.Port (LBFargateManifest.Image (App c))"
  "Priority (toTemplateParams g c) = 1"
  by (simp_all add: toTemplateParams_def Let_def)

lemma Itoa_one: "Itoa 1 = ''1''"
  by (simp add: Itoa_def decimal.simps digitChar_def)

lemma Parameters_list:
  "Parameters g c =
     [ \<lparr> ParameterKey = ''ProjectName'', ParameterValue = Project (Env c) \<rparr>,
       \<lparr> ParameterKey = ''EnvName'', ParameterValue = Environment.Name (Env c) \<rparr>,
       \<lparr> ParameterKey = ''AppName'', ParameterValue = AppManifest.Name (AppManifest (App c)) \<rparr>,
       \<lparr> ParameterKey = ''ContainerImage'', ParameterValue = URL (Image (toTemplateParams g c)) \<rparr>,
       \<lparr> ParameterKey = ''ContainerPort'',
         ParameterValue = Itoa (ImageWithPort.Port (LBFargateManifest.Image (App c))) \<rparr>,
       \<lparr> ParameterKey = ''RulePriority'', ParameterValue = ''1'' \<rparr>,
       \<lparr> ParameterKey = ''RulePath'',
         ParameterValue = Path (EnvConf g (App c) (Environment.Name (Env c))) \<rparr>,
       \<lparr> ParameterKey = ''TaskCPU'',
         ParameterValue = Itoa (CPU (EnvConf g (App c) (Environment.Name (Env c)))) \<rparr>,
       \<lparr> ParameterKey = ''TaskMemory'',
         ParameterValue = Itoa (Memory (EnvConf g (App c) (Environment.Name (Env c)))) \<rparr>,
       \<lparr> ParameterKey = ''TaskCount'',
         ParameterValue = Itoa (Count (EnvConf g (App c) (Environment.Name (Env c)))) \<rparr> ]"
  by (simp add: Parameters_def Let_def param_keys toTemplateParams_fields Itoa_one)

lemma Parameters_demo:
  "Parameters demoPkg demoStack =
     [ \<lparr> ParameterKey = ''ProjectName'', ParameterValue = ''demo'' \<rparr>,
       \<lparr> ParameterKey = ''EnvName'', ParameterValue = ''test'' \<rparr>,
       \<lparr> ParameterKey = ''AppName'', ParameterValue = ''frontend'' \<rparr>,
       \<lparr> ParameterKey = ''ContainerImage'',
         ParameterValue = ''123.dkr.ecr.us-east-1.amazonaws.com/demo/test/frontend:latest'' \<rparr>,
       \<lparr> ParameterKey = ''ContainerPort'', ParameterValue = ''80'' \<rparr>,
       \<lparr> ParameterKey = ''RulePriority'', ParameterValue = ''1'' \<rparr>,
       \<lparr> ParameterKey = ''RulePath'', ParameterValue = ''*'' \<rparr>,
       \<lparr> ParameterKey = ''TaskCPU'', ParameterValue = ''256'' \<rparr>,
       \<lparr> ParameterKey = ''TaskMemory'', ParameterValue = ''512'' \<rparr>,
       \<lparr> ParameterKey = ''TaskCount'', ParameterValue = ''1'' \<rparr> ]"
  by (simp add: Parameters_list URL_toTemplateParams demoStack_fields demoEnv_def
      demoManifest_def EnvConf_def Itoa_def decimal.simps digitChar_def)

text \<open>
  C3: for every input, \<open>Parameters\<close> returns exactly ten key/value pairs whose keys
  are, in this order, ProjectName, EnvName, AppName, ContainerImage, ContainerPort,
  RulePriority, RulePath, TaskCPU, TaskMemory, TaskCount; the values come from the
  environment, the manifest (its configuration resolved for the environment) and the
  computed image URL. For the scenario of the specification they are demo, test,
  frontend, the image URL, 80, 1, the path, 256, 512 and 1. \<open>Tags\<close> returns exactly
  three tags: the project, environment and application keys with the corresponding
  names as values.
\<close>

theorem Parameters_and_Tags:
  "length (Parameters g c) = 10
   \<and> map ParameterKey (Parameters g c) =
       [''ProjectName'', ''EnvName'', ''AppName'', ''ContainerImage'', ''ContainerPort'',
        ''RulePriority'', ''RulePath'', ''TaskCPU'', ''TaskMemory'', ''TaskCount'']
   \<and> map ParameterValue (Parameters g c) =
       [Project (Env c), Environment.Name (Env c), AppManifest.Name (AppManifest (App c)),
        URL (Image (toTemplateParams g c)),
        Itoa (ImageWithPort.Port (LBFargateManifest.Image (App c))),
        ''1'',
        Path (EnvConf g (App c) (Environment.Name (Env c))),
        Itoa (CPU (EnvConf g (App c) (Environment.Name (Env c)))),
        Itoa (Memory (EnvConf g (App c) (Environment.Name (Env c)))),
        Itoa (Count (EnvConf g (App c) (Environment.Name (Env c))))]
   \<and> map (\<lambda>p. (ParameterKey p, ParameterValue p)) (Parameters demoPkg demoStack) =
       [(''ProjectName'', ''demo''), (''EnvName'', ''test''), (''AppName'', ''frontend''),
        (''ContainerImage'', ''123.dkr.ecr.us-east-1.amazonaws.com/demo/test/frontend:latest''),
        (''ContainerPort'', ''80''), (''RulePriority'', ''1''), (''RulePath'', ''*''),
        (''TaskCPU'', ''256''), (''TaskMemory'', ''512''), (''TaskCount'', ''1'')]
   \<and> map (\<lambda>t. (Key t, Value t)) (Tags g c) =
       [(projectTagKey g, Project (Env c)), (envTagKey g, Environment.Name (Env c)),
        (appTagKey g, AppManifest.Name (AppManifest (App c)))]
   \<and> length (Tags g c) = 3"
proof (intro conjI)
  show "length (Parameters g c) = 10"
    by (simp add: Parameters_list)
  show "map ParameterKey (Parameters g c) =
       [''ProjectName'', ''EnvName'', ''AppName'', ''ContainerImage'', ''ContainerPort'',
        ''RulePriority'', ''RulePath'', ''TaskCPU'', ''TaskMemory'', ''TaskCount'']"
    by (simp add: Parameters_list)
  show "map ParameterValue (Parameters g c) =
       [Project (Env c), Environment.Name (Env c), AppManifest.Name (AppManifest (App c)),
        URL (Image (toTemplateParams g c)),
        Itoa (ImageWithPort.Port (LBFargateManifest.Image (App c))),
        ''1'',
        Path (EnvConf g (App c) (Environment.Name (Env c))),
        Itoa (CPU (EnvConf g (App c) (Environment.Name (Env c)))),
        Itoa (Memory (EnvConf g (App c) (Environment.Name (Env c)))),
        Itoa (Count (EnvConf g (App c) (Environment.Name (Env c))))]"
    by (simp add: Parameters_list)
  show "map (\<lambda>p. (ParameterKey p, ParameterValue p)) (Parameters demoPkg demoStack) =
       [(''ProjectName'', ''demo''), (''EnvName'', ''test''), (''AppName'', ''frontend''),
        (''ContainerImage'', ''123.dkr.ecr.us-east-1.amazonaws.com/demo/test/frontend:latest''),
        (''ContainerPort'', ''80''), (''RulePriority'', ''1''), (''RulePath'', ''*''),
        (''TaskCPU'', ''256''), (''TaskMemory'', ''512''), (''TaskCount'', ''1'')]"
    by (simp add: Parameters_demo)
  show "map (\<lambda>t. (Key t, Value t)) (Tags g c) =
       [(projectTagKey g, Project (Env c)), (envTagKey g, Environment.Name (Env c)),
        (appTagKey g, AppManifest.Name (AppManifest (App c)))]"
    by (simp add: Tags_def)
  show "length (Tags g c) = 3"
    by (simp add: Tags_def)
qed

section \<open>Manifests of an unsupported type\<close>

lemma Errorf_unsupported:
  "Errorf ''create CloudFormation template for manifest of type %T'' [t] =
     ErrorString (''create CloudFormation template for manifest of type '' @ t)"
  by (simp add: Errorf_def fmtExtra_def)

lemma demoOpts_fields:
  "projectName demoOpts = ''demo''" "AppName demoOpts = ''frontend''"
  "EnvName demoOpts = ''test''" "Tag demoOpts = ''latest''" "OutputDir demoOpts = []"
  "ws demoOpts = Some demoWorkspace" "envStore demoOpts = Some demoStore"
  "templateWriter demoOpts = Stdout" "paramsWriter demoOpts = Discard"
  "fs demoOpts = demoFs" "prompt demoOpts = demoPrompter"
  by (simp_all add: demoOpts_def NewPackageAppOpts_def demoPkg_def)

text \<open>
  C4: when the decoded manifest is of any type other than the load-balanced Fargate
  manifest, \<open>getTemplates\<close> returns an error whose message names that type, together
  with an empty template and an empty parameter document: the manifest is never
  ignored and nothing is rendered for it.
\<close>

theorem getTemplates_unsupported_type:
  assumes "ws opts = Some w"
    and "ReadManifestFile w (ManifestFileName w (AppName opts)) = Inr raw"
    and "manifest_UnmarshalApp g raw = Inr (OtherManifest t)"
  shows "getTemplates g opts env =
           ([], [], Some (ErrorString
              (''create CloudFormation template for manifest of type '' @ t)))"
  using assms by (simp add: getTemplates_def Errorf_unsupported)

theorem getTemplates_unsupported_type_witness:
  "getTemplates demoPkg (demoOpts\<lparr>AppName := ''worker''\<rparr>) demoEnv =
     ([], [], Some (ErrorString
        ''create CloudFormation template for manifest of type *manifest.WorkerManifest''))"
proof -
  have a: "ws (demoOpts\<lparr>AppName := ''worker''\<rparr>) = Some demoWorkspace"
    by (simp add: demoOpts_fields)
  have b: "ReadManifestFile demoWorkspace
             (ManifestFileName demoWorkspace (AppName (demoOpts\<lparr>AppName := ''worker''\<rparr>))) =
           Inr ''type: Worker''"
    by (simp add: demoWorkspace_def)
  have c: "manifest_UnmarshalApp demoPkg ''type: Worker'' =
             Inr (OtherManifest ''*manifest.WorkerManifest'')"
    by (simp add: demoPkg_def)
  show ?thesis
    using getTemplates_unsupported_type [OF a b c, of demoEnv] by simp
qed


section \<open>Failed template execution\<close>

lemma ErrorfW_one_operand:
  "ErrorfW ''execute CloudFormation template for %s: %w'' [t] e =
     WrapError (''execute CloudFormation template for '' @ t @ '': '' @ ext_message e) e"
  "ErrorfW ''execute stack configuration for %s: %w'' [t] e =
     WrapError (''execute stack configuration for '' @ t @ '': '' @ ext_message e) e"
  by (simp_all add: ErrorfW_def fmtExtra_def)

lemma Template_error_empty: "snd (Template g c) = Some e \<Longrightarrow> fst (Template g c) = []"
  by (auto simp: Template_def split: sum.splits prod.splits option.splits)

lemma SerializedParameters_error_empty:
  "snd (SerializedParameters g c) = Some e \<Longrightarrow> fst (SerializedParameters g c) = []"
  by (auto simp: SerializedParameters_def split: sum.splits prod.splits option.splits)

lemma brokenStack_fields:
  "Env brokenStack = demoEnv" "App brokenStack = demoManifest" "box brokenStack = brokenBox"
  by (simp_all add: brokenStack_def brokenPkg_def NewLBFargateStack_def
      CreateLBFargateAppInput.defs LBFargateStackConfig.defs demoPkg_def)

lemma brokenPkg_engine:
  "template_Parse brokenPkg = Inr" "template_Execute brokenPkg = demoExecute"
  by (simp_all add: brokenPkg_def demoPkg_def fun_eq_iff)

text \<open>
  C5: when the template is found and parsed and its execution fails, whatever text the
  engine had written to the buffer by then, \<open>Template\<close> returns the empty string
  together with the execution error (the engine's error wrapped with the message
  \<open>execute CloudFormation template for {type}\<close>), and \<open>SerializedParameters\<close> does
  the same with \<open>execute stack configuration for {type}\<close>. More generally, whenever
  either function returns an error its output string is empty: no partially rendered
  text reaches the caller.
\<close>

theorem execution_failure_no_output:
  "(FindString (box c) lbFargateAppTemplatePath = Inr content
      \<and> template_Parse g content = Inr tpl
      \<and> template_Execute g tpl (toTemplateParams g c) = (buf, Some err)
    \<longrightarrow> Template g c =
          ([], Some (WrapError (''execute CloudFormation template for ''
                       @ Type (AppManifest (App c)) @ '': '' @ ext_message err) err)))
   \<and> (FindString (box c) lbFargateAppParamsPath = Inr content'
      \<and> template_Parse g content' = Inr tpl'
      \<and> template_Execute g tpl' (toTemplateParams g c) = (buf', Some err')
    \<longrightarrow> SerializedParameters g c =
          ([], Some (WrapError (''execute stack configuration for ''
                       @ Type (AppManifest (App c)) @ '': '' @ ext_message err') err')))
   \<and> (snd (Template g c) \<noteq> None \<longrightarrow> fst (Template g c) = [])
   \<and> (snd (SerializedParameters g c) \<noteq> None \<longrightarrow> fst (SerializedParameters g c) = [])"
proof (intro conjI impI)
  assume "FindString (box c) lbFargateAppTemplatePath = Inr content
      \<and> template_Parse g content = Inr tpl
      \<and> template_Execute g tpl (toTemplateParams g c) = (buf, Some err)"
  then show "Template g c =
          ([], Some (WrapError (''execute CloudFormation template for ''
                       @ Type (AppManifest (App c)) @ '': '' @ ext_message err) err))"
    by (simp add: Template_def ErrorfW_one_operand)
next
  assume "FindString (box c) lbFargateAppParamsPath = Inr content'
      \<and> template_Parse g content' = Inr tpl'
      \<and> template_Execute g tpl' (toTemplateParams g c) = (buf', Some err')"
  then show "SerializedParameters g c =
          ([], Some (WrapError (''execute stack configuration for ''
                       @ Type (AppManifest (App c)) @ '': '' @ ext_message err') err'))"
    by (simp add: SerializedParameters_def ErrorfW_one_operand)
next
  assume "snd (Template g c) \<noteq> None"
  then show "fst (Template g c) = []"
    using Template_error_empty by blast
next
  assume "snd (SerializedParameters g c) \<noteq> None"
  then show "fst (SerializedParameters g c) = []"
    using SerializedParameters_error_empty by blast
qed

theorem execution_failure_no_output_witness:
  "template_Execute brokenPkg ''Service: $X'' (toTemplateParams brokenPkg brokenStack) =
     (''Service: '', Some (ExtError ''can't evaluate field X''))
   \<and> Template brokenPkg brokenStack =
       ([], Some (WrapError
          ''execute CloudFormation template for Load Balanced Web App: can't evaluate field X''
          (ExtError ''can't evaluate field X'')))
   \<and> SerializedParameters brokenPkg brokenStack =
       ([], Some (WrapError
          ''execute stack configuration for Load Balanced Web App: can't evaluate field X''
          (ExtError ''can't evaluate field X'')))"
  using execution_failure_no_output [of brokenStack "''Service: $X''" brokenPkg "''Service: $X''"
      "''Service: ''" "ExtError ''can't evaluate field X''" "''Service: $X''" "''Service: $X''"
      "''Service: ''" "ExtError ''can't evaluate field X''"]
  by (simp add: brokenStack_fields brokenPkg_engine brokenBox_def demoManifest_def)

section \<open>Validation\<close>

lemma contains_iff: "contains s items \<longleftrightarrow> s \<in> set items"
  by (induction items) auto

lemma Errorf_unknown_application:
  "Errorf ''application '%s' does not exist in the workspace'' [name] =
     ErrorString (''application '' @ [CHR 0x27] @ name @ [CHR 0x27] @ '' does not exist in the workspace'')"
  by (simp add: Errorf_def fmtExtra_def)

lemma Validate_no_project:
  "projectName opts = [] \<Longrightarrow> Validate opts w = (w, Some errNoProjectInWorkspace)"
  by (simp add: Validate_def)

lemma Validate_unknown_application:
  assumes "projectName opts \<noteq> []" and "AppName opts \<noteq> []"
    and "ws opts = Some wsp" and "AppNames wsp = Inr names"
  shows "snd (Validate opts w) =
           Some (ErrorString
             (''application '' @ [CHR 0x27] @ AppName opts @ [CHR 0x27]
                  @ '' does not exist in the workspace''))
         \<longleftrightarrow> AppName opts \<notin> set names"
  using assms
  by (auto simp: Validate_def listAppNames_def contains_iff Errorf_unknown_application
      callGetEnvironment_def split: sum.splits option.splits)

lemma Validate_lookup_error:
  assumes "projectName opts \<noteq> []"
    and "AppName opts = [] \<or> (ws opts = Some wsp \<and> AppNames wsp = Inr names
           \<and> AppName opts \<in> set names)"
    and "EnvName opts \<noteq> []" and "envStore opts = Some st"
    and "GetEnvironment st (projectName opts) (EnvName opts) = Inl err"
  shows "snd (Validate opts w) = Some (External err)"
  using assms
  by (auto simp: Validate_def listAppNames_def contains_iff)

text \<open>
  C8: \<open>Validate\<close> fails with the no-project error whenever the project name is empty,
  whatever the other inputs. When the project is set, an application name was supplied
  and the workspace lists its applications, \<open>Validate\<close> fails with the
  unknown-application error (\<open>application '{name}' does not exist in the workspace\<close>)
  exactly when the name is not in that list. When the project and application checks
  pass and an environment name was supplied, an error of the store's lookup is returned
  as it is.
\<close>

theorem Validate_errors:
  "(projectName opts = [] \<longrightarrow> snd (Validate opts w) = Some errNoProjectInWorkspace)
   \<and> (projectName opts \<noteq> [] \<and> AppName opts \<noteq> []
        \<and> ws opts = Some wsp \<and> AppNames wsp = Inr names
      \<longrightarrow> (snd (Validate opts w) =
             Some (ErrorString
               (''application '' @ [CHR 0x27] @ AppName opts @ [CHR 0x27]
                  @ '' does not exist in the workspace''))
           \<longleftrightarrow> AppName opts \<notin> set names))
   \<and> (projectName opts \<noteq> []
        \<and> (AppName opts = [] \<or> (ws opts = Some wsp \<and> AppNames wsp = Inr names
              \<and> AppName opts \<in> set names))
        \<and> EnvName opts \<noteq> [] \<and> envStore opts = Some st
        \<and> GetEnvironment st (projectName opts) (EnvName opts) = Inl err
      \<longrightarrow> snd (Validate opts w) = Some (External err))"
proof (intro conjI impI)
  assume "projectName opts = []"
  then show "snd (Validate opts w) = Some errNoProjectInWorkspace"
    by (simp add: Validate_no_project)
next
  assume "projectName opts \<noteq> [] \<and> AppName opts \<noteq> []
        \<and> ws opts = Some wsp \<and> AppNames wsp = Inr names"
  then show "snd (Validate opts w) =
             Some (ErrorString
               (''application '' @ [CHR 0x27] @ AppName opts @ [CHR 0x27]
                  @ '' does not exist in the workspace''))
           \<longleftrightarrow> AppName opts \<notin> set names"
    using Validate_unknown_application by blast
next
  assume "projectName opts \<noteq> []
        \<and> (AppName opts = [] \<or> (ws opts = Some wsp \<and> AppNames wsp = Inr names
              \<and> AppName opts \<in> set names))
        \<and> EnvName opts \<noteq> [] \<and> envStore opts = Some st
        \<and> GetEnvironment st (projectName opts) (EnvName opts) = Inl err"
  then show "snd (Validate opts w) = Some (External err)"
    using Validate_lookup_error by blast
qed

theorem Validate_errors_witness:
  "snd (Validate (demoOpts\<lparr>projectName := []\<rparr>) emptyWorld) = Some errNoProjectInWorkspace
   \<and> snd (Validate (demoOpts\<lparr>AppName := ''backend''\<rparr>) emptyWorld) =
       Some (ErrorString (''application '' @ [CHR 0x27] @ ''backend'' @ [CHR 0x27]
               @ '' does not exist in the workspace''))
   \<and> snd (Validate demoOpts emptyWorld) \<noteq>
       Some (ErrorString (''application '' @ [CHR 0x27] @ ''frontend'' @ [CHR 0x27]
               @ '' does not exist in the workspace''))
   \<and> snd (Validate (demoOpts\<lparr>EnvName := ''prod''\<rparr>) emptyWorld) =
       Some (External (ExtError ''environment not found''))"
  using
    Validate_errors [where opts = "demoOpts\<lparr>projectName := []\<rparr>" and w = emptyWorld]
    Validate_errors [where opts = "demoOpts\<lparr>AppName := ''backend''\<rparr>" and w = emptyWorld
      and wsp = demoWorkspace and names = "[''frontend'', ''worker'']"]
    Validate_errors [where opts = demoOpts and w = emptyWorld
      and wsp = demoWorkspace and names = "[''frontend'', ''worker'']"]
    Validate_errors [where opts = "demoOpts\<lparr>EnvName := ''prod''\<rparr>" and w = emptyWorld
      and wsp = demoWorkspace and names = "[''frontend'', ''worker'']" and st = demoStore
      and err = "ExtError ''environment not found''"]
  by (simp add: demoOpts_fields demoWorkspace_def demoStore_def)


section \<open>The steps of Execute\<close>

lemma Sprintf_file_names:
  "Sprintf ''%s.stack.yml'' [a] = a @ ''.stack.yml''"
  "Sprintf ''%s-%s.params.json'' [a, e] = a @ ''-'' @ e @ ''.params.json''"
  by (simp_all add: Sprintf_def fmtExtra_def)

lemma setFileWriters_ok:
  assumes "MkdirAll (fs opts) (OutputDir opts) 493 = None"
    and "Create (fs opts) (filepath_Join g (OutputDir opts) (AppName opts @ ''.stack.yml'')) = None"
    and "Create (fs opts)
           (filepath_Join g (OutputDir opts)
              (AppName opts @ ''-'' @ EnvName opts @ ''.params.json'')) = None"
  shows "setFileWriters g opts w =
           (opts\<lparr>templateWriter := File (length (fsCalls w) + 1)
                     (filepath_Join g (OutputDir opts) (AppName opts @ ''.stack.yml'')),
                 paramsWriter := File (length (fsCalls w) + 2)
                     (filepath_Join g (OutputDir opts)
                        (AppName opts @ ''-'' @ EnvName opts @ ''.params.json''))\<rparr>,
            w\<lparr>fsCalls := fsCalls w @
                 [MkdirAllCall (OutputDir opts) 493,
                  CreateCall (filepath_Join g (OutputDir opts) (AppName opts @ ''.stack.yml'')),
                  CreateCall (filepath_Join g (OutputDir opts)
                     (AppName opts @ ''-'' @ EnvName opts @ ''.params.json''))]\<rparr>,
            None)"
  using assms by (simp add: setFileWriters_def Sprintf_file_names Let_def)

lemma setFileWriters_frame:
  assumes "setFileWriters g opts w = (o2, w2, s)"
  shows "getEnvironmentCalls w2 = getEnvironmentCalls w" and "writeCalls w2 = writeCalls w"
    and "ws o2 = ws opts" and "AppName o2 = AppName opts" and "Tag o2 = Tag opts"
  using assms
  by (auto simp: setFileWriters_def Let_def split: option.splits)

lemma setFileWriters_error_world:
  "snd (snd (setFileWriters g opts w)) = snd (snd (setFileWriters g opts v))"
  by (simp add: setFileWriters_def Let_def split: option.splits)

lemma getTemplates_fields:
  "ws o2 = ws opts \<Longrightarrow> AppName o2 = AppName opts \<Longrightarrow> Tag o2 = Tag opts
   \<Longrightarrow> getTemplates g o2 env = getTemplates g opts env"
  by (simp add: getTemplates_def Let_def split: option.splits sum.splits Manifest.splits)

text \<open>The steps of \<open>Execute\<close> after the lookup, given the outcome of the sink setup.\<close>

lemma Execute_after_setup:
  assumes "envStore opts = Some st"
    and "GetEnvironment st (projectName opts) (EnvName opts) = Inr env"
    and "(if OutputDir opts \<noteq> []
          then setFileWriters g opts (callGetEnvironment w (projectName opts) (EnvName opts))
          else (opts, callGetEnvironment w (projectName opts) (EnvName opts), None)) =
         (o2, w2, s)"
  shows "Execute g opts w =
     (case s of
        Some e \<Rightarrow> (o2, w2, Some e)
      | None \<Rightarrow>
          (case getTemplates g opts env of
             (tpl, params, Some e) \<Rightarrow> (o2, w2, Some e)
           | (tpl, params, None) \<Rightarrow>
               (case writeOutcome g (templateWriter o2) tpl of
                  Some e \<Rightarrow>
                    (o2, w2\<lparr>writeCalls := writeCalls w2 @ [(templateWriter o2, tpl)]\<rparr>,
                     Some (External e))
                | None \<Rightarrow>
                    (o2, w2\<lparr>writeCalls := writeCalls w2 @
                             [(templateWriter o2, tpl), (paramsWriter o2, params)]\<rparr>,
                     map_option External (writeOutcome g (paramsWriter o2) params)))))"
proof -
  have gt: "getTemplates g o2 env = getTemplates g opts env"
  proof (cases "OutputDir opts \<noteq> []")
    case True
    with assms(3) have "setFileWriters g opts
        (callGetEnvironment w (projectName opts) (EnvName opts)) = (o2, w2, s)"
      by simp
    then show ?thesis
      by (intro getTemplates_fields setFileWriters_frame)
  next
    case False
    with assms(3) show ?thesis by simp
  qed
  show ?thesis
    using assms gt
    by (simp add: Execute_def Let_def Write_def split: option.splits prod.splits)
qed


lemma setFileWriters_calls_prefix:
  "\<exists>k. fsCalls (fst (snd (setFileWriters g opts w))) =
     fsCalls w @ take k
       [MkdirAllCall (OutputDir opts) 493,
        CreateCall (filepath_Join g (OutputDir opts) (AppName opts @ ''.stack.yml'')),
        CreateCall (filepath_Join g (OutputDir opts)
           (AppName opts @ ''-'' @ EnvName opts @ ''.params.json''))]"
proof (cases "MkdirAll (fs opts) (OutputDir opts) 493")
  case (Some e)
  then have "fsCalls (fst (snd (setFileWriters g opts w))) =
     fsCalls w @ take 1
       [MkdirAllCall (OutputDir opts) 493,
        CreateCall (filepath_Join g (OutputDir opts) (AppName opts @ ''.stack.yml'')),
        CreateCall (filepath_Join g (OutputDir opts)
           (AppName opts @ ''-'' @ EnvName opts @ ''.params.json''))]"
    by (simp add: setFileWriters_def Let_def)
  then show ?thesis by blast
next
  case None
  show ?thesis
  proof (cases "Create (fs opts)
      (filepath_Join g (OutputDir opts) (AppName opts @ ''.stack.yml''))")
    case (Some e)
    with None have "fsCalls (fst (snd (setFileWriters g opts w))) =
     fsCalls w @ take 2
       [MkdirAllCall (OutputDir opts) 493,
        CreateCall (filepath_Join g (OutputDir opts) (AppName opts @ ''.stack.yml'')),
        CreateCall (filepath_Join g (OutputDir opts)
           (AppName opts @ ''-'' @ EnvName opts @ ''.params.json''))]"
      by (simp add: setFileWriters_def Let_def Sprintf_file_names)
    then show ?thesis by blast
  next
    case c1: None
    with None have "fsCalls (fst (snd (setFileWriters g opts w))) =
     fsCalls w @ take 3
       [MkdirAllCall (OutputDir opts) 493,
        CreateCall (filepath_Join g (OutputDir opts) (AppName opts @ ''.stack.yml'')),
        CreateCall (filepath_Join g (OutputDir opts)
           (AppName opts @ ''-'' @ EnvName opts @ ''.params.json''))]"
      by (simp add: setFileWriters_def Let_def Sprintf_file_names split: option.splits)
    then show ?thesis by blast
  qed
qed

lemma Execute_fsCalls:
  assumes "envStore opts = Some st"
    and "GetEnvironment st (projectName opts) (EnvName opts) = Inr env"
    and "(if OutputDir opts \<noteq> []
          then setFileWriters g opts (callGetEnvironment w (projectName opts) (EnvName opts))
          else (opts, callGetEnvironment w (projectName opts) (EnvName opts), None)) =
         (o2, w2, s)"
  shows "fsCalls (fst (snd (Execute g opts w))) = fsCalls w2"
    and "fst (Execute g opts w) = o2"
    and "getEnvironmentCalls (fst (snd (Execute g opts w))) = getEnvironmentCalls w2"
  by (simp_all add: Execute_after_setup [OF assms] split: option.splits prod.splits)

lemma NewPackageAppOpts_defaults:
  "templateWriter (NewPackageAppOpts g) = Stdout"
  "paramsWriter (NewPackageAppOpts g) = Discard"
  "OutputDir (NewPackageAppOpts g) = []"
  by (simp_all add: NewPackageAppOpts_def split: sum.splits)


lemma callGetEnvironment_frame:
  "fsCalls (callGetEnvironment w p e) = fsCalls w"
  "writeCalls (callGetEnvironment w p e) = writeCalls w"
  "getEnvironmentCalls (callGetEnvironment w p e) = getEnvironmentCalls w @ [(p, e)]"
  by (simp_all add: callGetEnvironment_def)

lemma Execute_with_output_dir:
  assumes store: "envStore opts = Some st"
    and lookup: "GetEnvironment st (projectName opts) (EnvName opts) = Inr env"
    and dir: "OutputDir opts \<noteq> []"
    and mk: "MkdirAll (fs opts) (OutputDir opts) 493 = None"
    and c1: "Create (fs opts)
               (filepath_Join g (OutputDir opts) (AppName opts @ ''.stack.yml'')) = None"
    and c2: "Create (fs opts)
               (filepath_Join g (OutputDir opts)
                  (AppName opts @ ''-'' @ EnvName opts @ ''.params.json'')) = None"
  shows "fsCalls (fst (snd (Execute g opts w))) =
           fsCalls w @
             [MkdirAllCall (OutputDir opts) 493,
              CreateCall (filepath_Join g (OutputDir opts) (AppName opts @ ''.stack.yml'')),
              CreateCall (filepath_Join g (OutputDir opts)
                 (AppName opts @ ''-'' @ EnvName opts @ ''.params.json''))]"
    and "templateWriter (fst (Execute g opts w)) =
           File (length (fsCalls w) + 1)
             (filepath_Join g (OutputDir opts) (AppName opts @ ''.stack.yml''))"
    and "paramsWriter (fst (Execute g opts w)) =
           File (length (fsCalls w) + 2)
             (filepath_Join g (OutputDir opts)
                (AppName opts @ ''-'' @ EnvName opts @ ''.params.json''))"
    and "getTemplates g opts env = (tpl, params, None)
         \<Longrightarrow> writeOutcome g (templateWriter (fst (Execute g opts w))) tpl = None
         \<Longrightarrow> writeCalls (fst (snd (Execute g opts w))) =
               writeCalls w @
                 [(templateWriter (fst (Execute g opts w)), tpl),
                  (paramsWriter (fst (Execute g opts w)), params)]"
proof -
  let ?w1 = "callGetEnvironment w (projectName opts) (EnvName opts)"
  note sfw = setFileWriters_ok [OF mk c1 c2, where w = "?w1"]
  have step: "(if OutputDir opts \<noteq> [] then setFileWriters g opts ?w1 else (opts, ?w1, None)) =
      (fst (setFileWriters g opts ?w1), fst (snd (setFileWriters g opts ?w1)), None)"
    using dir by (simp add: sfw)
  note ex = Execute_after_setup [OF store lookup step]
  show "fsCalls (fst (snd (Execute g opts w))) =
           fsCalls w @
             [MkdirAllCall (OutputDir opts) 493,
              CreateCall (filepath_Join g (OutputDir opts) (AppName opts @ ''.stack.yml'')),
              CreateCall (filepath_Join g (OutputDir opts)
                 (AppName opts @ ''-'' @ EnvName opts @ ''.params.json''))]"
    by (simp add: Execute_fsCalls(1) [OF store lookup step] sfw callGetEnvironment_frame)
  show tw: "templateWriter (fst (Execute g opts w)) =
           File (length (fsCalls w) + 1)
             (filepath_Join g (OutputDir opts) (AppName opts @ ''.stack.yml''))"
    by (simp add: Execute_fsCalls(2) [OF store lookup step] sfw callGetEnvironment_frame)
  show pw: "paramsWriter (fst (Execute g opts w)) =
           File (length (fsCalls w) + 2)
             (filepath_Join g (OutputDir opts)
                (AppName opts @ ''-'' @ EnvName opts @ ''.params.json''))"
    by (simp add: Execute_fsCalls(2) [OF store lookup step] sfw callGetEnvironment_frame)
  show "writeCalls (fst (snd (Execute g opts w))) =
               writeCalls w @
                 [(templateWriter (fst (Execute g opts w)), tpl),
                  (paramsWriter (fst (Execute g opts w)), params)]"
    if "getTemplates g opts env = (tpl, params, None)"
      and "writeOutcome g (templateWriter (fst (Execute g opts w))) tpl = None"
    using that unfolding tw pw
    by (simp add: ex sfw callGetEnvironment_frame)
qed

lemma Execute_without_output_dir:
  assumes store: "envStore opts = Some st"
    and lookup: "GetEnvironment st (projectName opts) (EnvName opts) = Inr env"
    and dir: "OutputDir opts = []"
  shows "fsCalls (fst (snd (Execute g opts w))) = fsCalls w"
    and "fst (Execute g opts w) = opts"
    and "getTemplates g opts env = (tpl, params, None)
         \<Longrightarrow> writeOutcome g (templateWriter opts) tpl = None
         \<Longrightarrow> writeCalls (fst (snd (Execute g opts w))) =
               writeCalls w @ [(templateWriter opts, tpl), (paramsWriter opts, params)]"
proof -
  let ?w1 = "callGetEnvironment w (projectName opts) (EnvName opts)"
  have step: "(if OutputDir opts \<noteq> [] then setFileWriters g opts ?w1 else (opts, ?w1, None)) =
      (opts, ?w1, None)"
    using dir by simp
  note ex = Execute_after_setup [OF store lookup step]
  show "fsCalls (fst (snd (Execute g opts w))) = fsCalls w"
    by (simp add: Execute_fsCalls(1) [OF store lookup step] callGetEnvironment_frame)
  show "fst (Execute g opts w) = opts"
    by (simp add: Execute_fsCalls(2) [OF store lookup step])
  show "writeCalls (fst (snd (Execute g opts w))) =
               writeCalls w @ [(templateWriter opts, tpl), (paramsWriter opts, params)]"
    if "getTemplates g opts env = (tpl, params, None)"
      and "writeOutcome g (templateWriter opts) tpl = None"
    using that by (simp add: ex callGetEnvironment_frame)
qed

lemma demoJoin_examples:
  "demoJoin ''./out'' name = ''out/'' @ name" "demoJoin [] name = name"
  by (simp_all add: demoJoin_def)

lemma demoPkg_fields:
  "templates_Box demoPkg = demoBox" "template_Parse demoPkg = Inr"
  "template_Execute demoPkg = demoExecute"
  "filepath_Join demoPkg = demoJoin"
  "writer_Write demoPkg = (\<lambda>wr bytes. None)"
  "manifest_UnmarshalApp demoPkg ''type: Load Balanced Web App'' = Inr (LBFargate demoManifest)"
  by (simp_all add: demoPkg_def fun_eq_iff)

lemma Template_demo:
  "Template demoPkg demoStack = (''Service: frontend'', None)"
  "SerializedParameters demoPkg demoStack = (''AppName: frontend, EnvName: test'', None)"
  by (simp_all add: Template_def SerializedParameters_def demoStack_fields demoBox_def
      demoPkg_fields lbFargateAppTemplatePath_def lbFargateAppParamsPath_def
      toTemplateParams_fields demoManifest_def demoEnv_def)

lemma getTemplates_demo:
  "getTemplates demoPkg (demoOpts\<lparr>OutputDir := d\<rparr>) demoEnv =
     (''Service: frontend'', ''AppName: frontend, EnvName: test'', None)"
  "getTemplates demoPkg demoOpts demoEnv =
     (''Service: frontend'', ''AppName: frontend, EnvName: test'', None)"
proof -
  have "NewLBFargateStack demoPkg \<lparr> App = demoManifest, Env = demoEnv, ImageTag = ''latest'' \<rparr>
          = demoStack"
    by (simp add: demoStack_def)
  then show "getTemplates demoPkg (demoOpts\<lparr>OutputDir := d\<rparr>) demoEnv =
     (''Service: frontend'', ''AppName: frontend, EnvName: test'', None)"
    and "getTemplates demoPkg demoOpts demoEnv =
     (''Service: frontend'', ''AppName: frontend, EnvName: test'', None)"
    by (simp_all add: getTemplates_def demoOpts_fields demoWorkspace_def demoPkg_fields
        Template_demo)
qed

section \<open>Where the documents are written\<close>

text \<open>
  C7: let the environment's lookup succeed. When an output directory is requested and
  the file system creates the directory and the two files, \<open>Execute\<close> calls
  \<open>MkdirAll\<close> on the directory (which also creates missing parents) and creates
  exactly two files, \<open>filepath.Join\<close> of the directory with \<open>{app}.stack.yml\<close> and
  with \<open>{app}-{env}.params.json\<close>, and no other file; the rendered template is
  written to the first and the parameter document to the second. Whatever the file
  system answers, the file-system calls of a run are an initial part of these three, so
  no other file is ever created. When no output
  directory is requested, no file-system call is made and the documents go to the
  writers of the options, which the constructor sets to standard output for the
  template and to the discard writer for the parameters.
\<close>

theorem Execute_sinks:
  assumes run: "Execute g opts w = (opts', w', r)"
    and store: "envStore opts = Some st"
    and lookup: "GetEnvironment st (projectName opts) (EnvName opts) = Inr env"
    and tp: "templatePath = filepath_Join g (OutputDir opts) (AppName opts @ ''.stack.yml'')"
    and pp: "paramsPath =
               filepath_Join g (OutputDir opts)
                 (AppName opts @ ''-'' @ EnvName opts @ ''.params.json'')"
  shows
    "(OutputDir opts \<noteq> [] \<and> MkdirAll (fs opts) (OutputDir opts) 493 = None
        \<and> Create (fs opts) templatePath = None \<and> Create (fs opts) paramsPath = None
      \<longrightarrow> fsCalls w' =
            fsCalls w @
              [MkdirAllCall (OutputDir opts) 493, CreateCall templatePath, CreateCall paramsPath]
          \<and> templateWriter opts' = File (length (fsCalls w) + 1) templatePath
          \<and> paramsWriter opts' = File (length (fsCalls w) + 2) paramsPath
          \<and> (getTemplates g opts env = (tpl, params, None)
               \<and> writeOutcome g (templateWriter opts') tpl = None
             \<longrightarrow> writeCalls w' =
                   writeCalls w @
                     [(File (length (fsCalls w) + 1) templatePath, tpl),
                      (File (length (fsCalls w) + 2) paramsPath, params)]))
     \<and> (OutputDir opts = []
      \<longrightarrow> fsCalls w' = fsCalls w
          \<and> templateWriter opts' = templateWriter opts
          \<and> paramsWriter opts' = paramsWriter opts
          \<and> (getTemplates g opts env = (tpl, params, None)
               \<and> writeOutcome g (templateWriter opts) tpl = None
             \<longrightarrow> writeCalls w' =
                   writeCalls w @ [(templateWriter opts, tpl), (paramsWriter opts, params)]))
     \<and> (\<exists>k. fsCalls w' =
            fsCalls w @ take k
              [MkdirAllCall (OutputDir opts) 493, CreateCall templatePath,
               CreateCall paramsPath])
     \<and> templateWriter (NewPackageAppOpts g) = Stdout
     \<and> paramsWriter (NewPackageAppOpts g) = Discard
     \<and> OutputDir (NewPackageAppOpts g) = []"
proof -
  have o': "opts' = fst (Execute g opts w)" and w': "w' = fst (snd (Execute g opts w))"
    using run by simp_all
  have no_other: "\<exists>k. fsCalls w' =
            fsCalls w @ take k
              [MkdirAllCall (OutputDir opts) 493, CreateCall templatePath,
               CreateCall paramsPath]"
  proof (cases "OutputDir opts = []")
    case True
    then have "fsCalls w' = fsCalls w @ take 0
              [MkdirAllCall (OutputDir opts) 493, CreateCall templatePath,
               CreateCall paramsPath]"
      using Execute_without_output_dir(1) [OF store lookup True, where g = g and w = w]
      by (simp add: w')
    then show ?thesis by blast
  next
    case False
    let ?w1 = "callGetEnvironment w (projectName opts) (EnvName opts)"
    have step: "(if OutputDir opts \<noteq> [] then setFileWriters g opts ?w1
                 else (opts, ?w1, None)) =
        (fst (setFileWriters g opts ?w1), fst (snd (setFileWriters g opts ?w1)),
         snd (snd (setFileWriters g opts ?w1)))"
      using False by simp
    have "fsCalls w' = fsCalls (fst (snd (setFileWriters g opts ?w1)))"
      by (simp add: w' Execute_fsCalls(1) [OF store lookup step])
    with setFileWriters_calls_prefix [of g opts ?w1] show ?thesis
      by (simp add: tp pp callGetEnvironment_frame)
  qed
  have with_dir:
    "fsCalls w' =
       fsCalls w @
         [MkdirAllCall (OutputDir opts) 493, CreateCall templatePath, CreateCall paramsPath]
     \<and> templateWriter opts' = File (length (fsCalls w) + 1) templatePath
     \<and> paramsWriter opts' = File (length (fsCalls w) + 2) paramsPath
     \<and> (getTemplates g opts env = (tpl, params, None)
          \<and> writeOutcome g (templateWriter opts') tpl = None
        \<longrightarrow> writeCalls w' =
              writeCalls w @
                [(File (length (fsCalls w) + 1) templatePath, tpl),
                 (File (length (fsCalls w) + 2) paramsPath, params)])"
    if h: "OutputDir opts \<noteq> [] \<and> MkdirAll (fs opts) (OutputDir opts) 493 = None
        \<and> Create (fs opts) templatePath = None \<and> Create (fs opts) paramsPath = None"
  proof -
    from h have dir: "OutputDir opts \<noteq> []"
      and mk: "MkdirAll (fs opts) (OutputDir opts) 493 = None"
      and c1: "Create (fs opts)
                 (filepath_Join g (OutputDir opts) (AppName opts @ ''.stack.yml'')) = None"
      and c2: "Create (fs opts)
                 (filepath_Join g (OutputDir opts)
                    (AppName opts @ ''-'' @ EnvName opts @ ''.params.json'')) = None"
      by (simp_all add: tp pp)
    note facts = Execute_with_output_dir [OF store lookup dir mk c1 c2, where w = w]
    have a: "fsCalls w' =
       fsCalls w @
         [MkdirAllCall (OutputDir opts) 493, CreateCall templatePath, CreateCall paramsPath]"
      by (simp add: w' tp pp facts(1))
    have b: "templateWriter opts' = File (length (fsCalls w) + 1) templatePath"
      by (simp add: o' tp facts(2))
    have c: "paramsWriter opts' = File (length (fsCalls w) + 2) paramsPath"
      by (simp add: o' pp facts(3))
    have d: "writeCalls w' =
              writeCalls w @
                [(File (length (fsCalls w) + 1) templatePath, tpl),
                 (File (length (fsCalls w) + 2) paramsPath, params)]"
      if "getTemplates g opts env = (tpl, params, None)"
        and "writeOutcome g (templateWriter opts') tpl = None"
      using facts(4) [where tpl = tpl and params = params] that b c by (simp add: o' w')
    from a b c d show ?thesis by blast
  qed
  have without_dir:
    "fsCalls w' = fsCalls w
     \<and> templateWriter opts' = templateWriter opts
     \<and> paramsWriter opts' = paramsWriter opts
     \<and> (getTemplates g opts env = (tpl, params, None)
          \<and> writeOutcome g (templateWriter opts) tpl = None
        \<longrightarrow> writeCalls w' =
              writeCalls w @ [(templateWriter opts, tpl), (paramsWriter opts, params)])"
    if dir: "OutputDir opts = []"
    using Execute_without_output_dir [OF store lookup dir, where g = g and w = w]
    by (simp add: o' w')
  from with_dir without_dir no_other show ?thesis
    by (simp add: NewPackageAppOpts_defaults)
qed

theorem Execute_sinks_witness:
  "fsCalls (fst (snd (Execute demoPkg (demoOpts\<lparr>OutputDir := ''./out''\<rparr>) emptyWorld))) =
     [MkdirAllCall ''./out'' 493, CreateCall ''out/frontend.stack.yml'',
      CreateCall ''out/frontend-test.params.json'']
   \<and> writeCalls (fst (snd (Execute demoPkg (demoOpts\<lparr>OutputDir := ''./out''\<rparr>) emptyWorld))) =
       [(File 1 ''out/frontend.stack.yml'', ''Service: frontend''),
        (File 2 ''out/frontend-test.params.json'', ''AppName: frontend, EnvName: test'')]
   \<and> fsCalls (fst (snd (Execute demoPkg (demoOpts\<lparr>OutputDir := []\<rparr>) emptyWorld))) = []
   \<and> writeCalls (fst (snd (Execute demoPkg (demoOpts\<lparr>OutputDir := []\<rparr>) emptyWorld))) =
       [(Stdout, ''Service: frontend''), (Discard, ''AppName: frontend, EnvName: test'')]"
proof -
  have run: "Execute demoPkg (demoOpts\<lparr>OutputDir := d\<rparr>) emptyWorld =
      (fst (Execute demoPkg (demoOpts\<lparr>OutputDir := d\<rparr>) emptyWorld),
       fst (snd (Execute demoPkg (demoOpts\<lparr>OutputDir := d\<rparr>) emptyWorld)),
       snd (snd (Execute demoPkg (demoOpts\<lparr>OutputDir := d\<rparr>) emptyWorld)))" for d
    by simp
  have store: "envStore (demoOpts\<lparr>OutputDir := d\<rparr>) = Some demoStore" for d
    by (simp add: demoOpts_fields)
  have lookup: "GetEnvironment demoStore (projectName (demoOpts\<lparr>OutputDir := d\<rparr>))
      (EnvName (demoOpts\<lparr>OutputDir := d\<rparr>)) = Inr demoEnv" for d
    by (simp add: demoOpts_fields demoStore_def)
  have tp: "''out/frontend.stack.yml'' =
      filepath_Join demoPkg (OutputDir (demoOpts\<lparr>OutputDir := ''./out''\<rparr>))
        (AppName (demoOpts\<lparr>OutputDir := ''./out''\<rparr>) @ ''.stack.yml'')"
    by (simp add: demoOpts_fields demoPkg_fields demoJoin_examples)
  have pp: "''out/frontend-test.params.json'' =
      filepath_Join demoPkg (OutputDir (demoOpts\<lparr>OutputDir := ''./out''\<rparr>))
        (AppName (demoOpts\<lparr>OutputDir := ''./out''\<rparr>) @ ''-''
           @ EnvName (demoOpts\<lparr>OutputDir := ''./out''\<rparr>) @ ''.params.json'')"
    by (simp add: demoOpts_fields demoPkg_fields demoJoin_examples)
  have tp0: "''frontend.stack.yml'' =
      filepath_Join demoPkg (OutputDir (demoOpts\<lparr>OutputDir := []\<rparr>))
        (AppName (demoOpts\<lparr>OutputDir := []\<rparr>) @ ''.stack.yml'')"
    by (simp add: demoOpts_fields demoPkg_fields demoJoin_examples)
  have pp0: "''frontend-test.params.json'' =
      filepath_Join demoPkg (OutputDir (demoOpts\<lparr>OutputDir := []\<rparr>))
        (AppName (demoOpts\<lparr>OutputDir := []\<rparr>) @ ''-''
           @ EnvName (demoOpts\<lparr>OutputDir := []\<rparr>) @ ''.params.json'')"
    by (simp add: demoOpts_fields demoPkg_fields demoJoin_examples)
  note out = Execute_sinks [OF run store lookup tp pp,
      where tpl = "''Service: frontend''" and params = "''AppName: frontend, EnvName: test''"]
  note std = Execute_sinks [OF run store lookup tp0 pp0,
      where tpl = "''Service: frontend''" and params = "''AppName: frontend, EnvName: test''"]
  from out std show ?thesis
    by (simp add: getTemplates_demo demoOpts_fields demoFs_def emptyWorld_def
        writeOutcome_def demoPkg_fields demoJoin_examples)
qed


section \<open>The parameter document is written last\<close>

lemma Execute_lookup_error:
  assumes "envStore opts = Some st"
    and "GetEnvironment st (projectName opts) (EnvName opts) = Inl e"
  shows "Execute g opts w =
           (opts, callGetEnvironment w (projectName opts) (EnvName opts), Some (External e))"
  using assms by (simp add: Execute_def Let_def)

lemma setup_step:
  "(if OutputDir opts \<noteq> [] then setFileWriters g opts v else (opts, v, None)) =
     (fst (if OutputDir opts \<noteq> [] then setFileWriters g opts v else (opts, v, None)),
      fst (snd (if OutputDir opts \<noteq> [] then setFileWriters g opts v else (opts, v, None))),
      snd (snd (if OutputDir opts \<noteq> [] then setFileWriters g opts v else (opts, v, None))))"
  by simp

lemma setup_writeCalls:
  "writeCalls (fst (snd (if OutputDir opts \<noteq> [] then setFileWriters g opts v
                         else (opts, v, None)))) = writeCalls v"
  using setFileWriters_frame(2) [of g opts v "fst (setFileWriters g opts v)"
      "fst (snd (setFileWriters g opts v))" "snd (snd (setFileWriters g opts v))"]
  by simp

lemma setup_getEnvironmentCalls:
  "getEnvironmentCalls (fst (snd (if OutputDir opts \<noteq> [] then setFileWriters g opts v
                         else (opts, v, None)))) = getEnvironmentCalls v"
  using setFileWriters_frame(1) [of g opts v "fst (setFileWriters g opts v)"
      "fst (snd (setFileWriters g opts v))" "snd (snd (setFileWriters g opts v))"]
  by simp

lemma setFileWriters_distinct_writers:
  "snd (snd (setFileWriters g opts v)) = None
   \<Longrightarrow> templateWriter (fst (setFileWriters g opts v)) \<noteq>
       paramsWriter (fst (setFileWriters g opts v))"
  by (auto simp: setFileWriters_def Let_def split: option.splits)

lemma getTemplates_brokenPipe:
  "getTemplates brokenPipePkg demoOpts demoEnv =
     (''Service: frontend'', ''AppName: frontend, EnvName: test'', None)"
  by (simp add: getTemplates_def demoOpts_fields demoWorkspace_def brokenPipePkg_def
      demoPkg_def Template_def SerializedParameters_def NewLBFargateStack_def
      CreateLBFargateAppInput.defs LBFargateStackConfig.defs demoBox_def
      lbFargateAppTemplatePath_def lbFargateAppParamsPath_def toTemplateParams_fields
      demoManifest_def demoEnv_def)

lemma setFileWriters_readOnly:
  "snd (snd (setFileWriters demoPkg (demoOpts\<lparr>OutputDir := ''./out'', fs := readOnlyFs\<rparr>)
     emptyWorld)) =
   Some (WrapError ''create file out/frontend.stack.yml: permission denied''
     (ExtError ''permission denied''))"
  by (simp add: setFileWriters_def Let_def demoOpts_fields readOnlyFs_def demoPkg_fields
      demoJoin_examples
      Sprintf_file_names ErrorfW_def fmtExtra_def)


lemma emptyWorld_fields:
  "getEnvironmentCalls emptyWorld = []" "fsCalls emptyWorld = []" "writeCalls emptyWorld = []"
  by (simp_all add: emptyWorld_def)

lemma brokenPipePkg_write:
  "writer_Write brokenPipePkg wr bytes = Some (ExtError ''broken pipe'')"
  by (simp add: brokenPipePkg_def)

lemma Execute_collapse:
  "Execute g opts w =
     (fst (Execute g opts w), fst (snd (Execute g opts w)), snd (snd (Execute g opts w)))"
  by simp

lemma Execute_failures:
  assumes run: "Execute g opts w = (opts', w', r)"
    and store: "envStore opts = Some st"
  shows
    "(GetEnvironment st (projectName opts) (EnvName opts) = Inl e1
      \<longrightarrow> r = Some (External e1) \<and> writeCalls w' = writeCalls w)
     \<and> (GetEnvironment st (projectName opts) (EnvName opts) = Inr env
         \<and> OutputDir opts \<noteq> [] \<and> snd (snd (setFileWriters g opts w)) = Some e2
      \<longrightarrow> r = Some e2 \<and> writeCalls w' = writeCalls w)
     \<and> (GetEnvironment st (projectName opts) (EnvName opts) = Inr env
         \<and> (OutputDir opts = [] \<or> snd (snd (setFileWriters g opts w)) = None)
         \<and> getTemplates g opts env = (tpl, params, Some e3)
      \<longrightarrow> r = Some e3 \<and> writeCalls w' = writeCalls w)
     \<and> (GetEnvironment st (projectName opts) (EnvName opts) = Inr env
         \<and> (OutputDir opts = [] \<or> snd (snd (setFileWriters g opts w)) = None)
         \<and> getTemplates g opts env = (tpl, params, None)
         \<and> writeOutcome g (templateWriter opts') tpl = Some e4
      \<longrightarrow> r = Some (External e4)
          \<and> writeCalls w' = writeCalls w @ [(templateWriter opts', tpl)]
          \<and> (OutputDir opts = [] \<longrightarrow> templateWriter opts' = templateWriter opts
                \<and> paramsWriter opts' = paramsWriter opts)
          \<and> (OutputDir opts \<noteq> [] \<longrightarrow> templateWriter opts' \<noteq> paramsWriter opts'))"
proof -
  let ?w1 = "callGetEnvironment w (projectName opts) (EnvName opts)"
  obtain o2 w2 s where
    step: "(if OutputDir opts \<noteq> [] then setFileWriters g opts ?w1 else (opts, ?w1, None)) =
             (o2, w2, s)"
    using prod_cases3 by blast
  have wc: "writeCalls w2 = writeCalls w"
    using setup_writeCalls [of opts g ?w1] step by (simp add: callGetEnvironment_frame)
  have s_dir: "s = snd (snd (setFileWriters g opts w))" if "OutputDir opts \<noteq> []"
    using that step setFileWriters_error_world [of g opts ?w1 w] by simp
  have s_nodir: "s = None \<and> o2 = opts" if "OutputDir opts = []"
    using that step by simp
  have c1: "r = Some (External e1) \<and> writeCalls w' = writeCalls w"
    if "GetEnvironment st (projectName opts) (EnvName opts) = Inl e1"
    using run Execute_lookup_error [OF store that, of g w]
    by (auto simp: callGetEnvironment_frame)
  have c2: "r = Some e2 \<and> writeCalls w' = writeCalls w"
    if h: "GetEnvironment st (projectName opts) (EnvName opts) = Inr env
         \<and> OutputDir opts \<noteq> [] \<and> snd (snd (setFileWriters g opts w)) = Some e2"
  proof -
    from h have lookup: "GetEnvironment st (projectName opts) (EnvName opts) = Inr env"
      and s2: "s = Some e2"
      using s_dir by simp_all
    from Execute_after_setup [OF store lookup step] run s2 wc
    show ?thesis by simp
  qed
  have c3: "r = Some e3 \<and> writeCalls w' = writeCalls w"
    if h: "GetEnvironment st (projectName opts) (EnvName opts) = Inr env
         \<and> (OutputDir opts = [] \<or> snd (snd (setFileWriters g opts w)) = None)
         \<and> getTemplates g opts env = (tpl, params, Some e3)"
  proof -
    from h have lookup: "GetEnvironment st (projectName opts) (EnvName opts) = Inr env"
      and gt: "getTemplates g opts env = (tpl, params, Some e3)"
      by simp_all
    from h have s2: "s = None"
      using s_dir s_nodir by (cases "OutputDir opts = []") simp_all
    from Execute_after_setup [OF store lookup step] run s2 gt wc
    show ?thesis by simp
  qed
  have c4: "r = Some (External e4)
          \<and> writeCalls w' = writeCalls w @ [(templateWriter opts', tpl)]
          \<and> (OutputDir opts = [] \<longrightarrow> templateWriter opts' = templateWriter opts
                \<and> paramsWriter opts' = paramsWriter opts)
          \<and> (OutputDir opts \<noteq> [] \<longrightarrow> templateWriter opts' \<noteq> paramsWriter opts')"
    if h: "GetEnvironment st (projectName opts) (EnvName opts) = Inr env
         \<and> (OutputDir opts = [] \<or> snd (snd (setFileWriters g opts w)) = None)
         \<and> getTemplates g opts env = (tpl, params, None)
         \<and> writeOutcome g (templateWriter opts') tpl = Some e4"
  proof -
    from h have lookup: "GetEnvironment st (projectName opts) (EnvName opts) = Inr env"
      and gt: "getTemplates g opts env = (tpl, params, None)"
      and wo: "writeOutcome g (templateWriter opts') tpl = Some e4"
      by simp_all
    from h have s2: "s = None"
      using s_dir s_nodir by (cases "OutputDir opts = []") simp_all
    have o2: "opts' = o2"
      using Execute_fsCalls(2) [OF store lookup step] run by simp
    from Execute_after_setup [OF store lookup step] run s2 gt wo wc
    have a: "r = Some (External e4)"
      and b: "writeCalls w' = writeCalls w @ [(templateWriter opts', tpl)]"
      by (simp_all add: o2)
    have c: "templateWriter opts' = templateWriter opts \<and> paramsWriter opts' = paramsWriter opts"
      if "OutputDir opts = []"
      using that s_nodir by (simp add: o2)
    have d: "templateWriter opts' \<noteq> paramsWriter opts'" if "OutputDir opts \<noteq> []"
      using that s2 step setFileWriters_distinct_writers [of g opts ?w1] by (simp add: o2)
    from a b c d show ?thesis by blast
  qed
  from c1 c2 c3 c4 show ?thesis by blast
qed

lemma getTemplates_first_render_fails:
  assumes "ws opts = Some wsp"
    and "ReadManifestFile wsp (ManifestFileName wsp (AppName opts)) = Inr raw"
    and "manifest_UnmarshalApp g raw = Inr (LBFargate m)"
    and "Template g (NewLBFargateStack g \<lparr> App = m, Env = env, ImageTag = Tag opts \<rparr>) =
           (t, Some e)"
  shows "getTemplates g opts env = ([], [], Some e)"
  using assms by (simp add: getTemplates_def)

lemma getTemplates_second_render_fails:
  assumes "ws opts = Some wsp"
    and "ReadManifestFile wsp (ManifestFileName wsp (AppName opts)) = Inr raw"
    and "manifest_UnmarshalApp g raw = Inr (LBFargate m)"
    and "Template g (NewLBFargateStack g \<lparr> App = m, Env = env, ImageTag = Tag opts \<rparr>) =
           (t, None)"
    and "SerializedParameters g
           (NewLBFargateStack g \<lparr> App = m, Env = env, ImageTag = Tag opts \<rparr>) = (p, Some e)"
  shows "getTemplates g opts env = (t, p, Some e)"
  using assms by (simp add: getTemplates_def)

lemma getTemplates_worker:
  "getTemplates demoPkg (demoOpts\<lparr>AppName := ''worker''\<rparr>) demoEnv =
     ([], [], Some (ErrorString
        ''create CloudFormation template for manifest of type *manifest.WorkerManifest''))"
  by (simp add: getTemplates_def demoOpts_fields demoWorkspace_def demoPkg_def
      Errorf_unsupported)

lemma brokenPkg_first_render:
  "manifest_UnmarshalApp brokenPkg ''type: Load Balanced Web App'' = Inr (LBFargate demoManifest)"
  "Template brokenPkg
     (NewLBFargateStack brokenPkg \<lparr> App = demoManifest, Env = demoEnv, ImageTag = ''latest'' \<rparr>) =
   ([], Some (WrapError
      ''execute CloudFormation template for Load Balanced Web App: can't evaluate field X''
      (ExtError ''can't evaluate field X'')))"
proof -
  show "manifest_UnmarshalApp brokenPkg ''type: Load Balanced Web App'' =
      Inr (LBFargate demoManifest)"
    by (simp add: brokenPkg_def demoPkg_def)
  have "Template brokenPkg brokenStack = ([], Some (WrapError
      ''execute CloudFormation template for Load Balanced Web App: can't evaluate field X''
      (ExtError ''can't evaluate field X'')))"
    by (simp add: Template_def brokenStack_fields brokenBox_def brokenPkg_engine
        ErrorfW_one_operand demoManifest_def)
  then show "Template brokenPkg
     (NewLBFargateStack brokenPkg \<lparr> App = demoManifest, Env = demoEnv, ImageTag = ''latest'' \<rparr>) =
   ([], Some (WrapError
      ''execute CloudFormation template for Load Balanced Web App: can't evaluate field X''
      (ExtError ''can't evaluate field X'')))"
    by (simp add: brokenStack_def)
qed

lemma brokenParamsPkg_renders:
  "manifest_UnmarshalApp brokenParamsPkg ''type: Load Balanced Web App'' =
     Inr (LBFargate demoManifest)"
  "Template brokenParamsPkg
     (NewLBFargateStack brokenParamsPkg
        \<lparr> App = demoManifest, Env = demoEnv, ImageTag = ''latest'' \<rparr>) =
   (''Service: frontend'', None)"
  "template_Execute brokenParamsPkg ''AppName: $N, Port: $P''
     (toTemplateParams brokenParamsPkg
        (NewLBFargateStack brokenParamsPkg
           \<lparr> App = demoManifest, Env = demoEnv, ImageTag = ''latest'' \<rparr>)) =
   (''AppName: frontend, Port: '', Some (ExtError ''can't evaluate field P''))"
  "SerializedParameters brokenParamsPkg
     (NewLBFargateStack brokenParamsPkg
        \<lparr> App = demoManifest, Env = demoEnv, ImageTag = ''latest'' \<rparr>) =
   ([], Some (WrapError
      ''execute stack configuration for Load Balanced Web App: can't evaluate field P''
      (ExtError ''can't evaluate field P'')))"
  by (simp_all add: Template_def SerializedParameters_def NewLBFargateStack_def
      CreateLBFargateAppInput.defs LBFargateStackConfig.defs brokenParamsPkg_def demoPkg_def
      brokenParamsBox_def lbFargateAppTemplatePath_def lbFargateAppParamsPath_def
      toTemplateParams_fields demoManifest_def demoEnv_def ErrorfW_one_operand)

text \<open>
  C10: \<open>Execute\<close> calls \<open>Write\<close> on the parameters writer only after the rendered
  template has been written to the template writer. If the environment's lookup fails,
  or the sink setup (\<open>setFileWriters\<close>) fails, or \<open>getTemplates\<close> fails, in
  particular when the manifest is read and decoded and \<open>Template\<close> fails, or
  \<open>Template\<close> succeeds and \<open>SerializedParameters\<close> fails, \<open>Execute\<close> returns that
  error and the record of \<open>Write\<close> calls is unchanged. If writing the template fails,
  \<open>Execute\<close> returns the writer's error and the only call recorded is the one on the
  template writer, which is a different writer from the parameters writer when the
  files were created, and the writer of the options otherwise. In no case is anything
  written to the parameters writer.
\<close>

theorem params_written_last:
  assumes run: "Execute g opts w = (opts', w', r)"
    and store: "envStore opts = Some st"
  shows
    "(GetEnvironment st (projectName opts) (EnvName opts) = Inl e1
      \<longrightarrow> r = Some (External e1) \<and> writeCalls w' = writeCalls w)
     \<and> (GetEnvironment st (projectName opts) (EnvName opts) = Inr env
         \<and> OutputDir opts \<noteq> [] \<and> snd (snd (setFileWriters g opts w)) = Some e2
      \<longrightarrow> r = Some e2 \<and> writeCalls w' = writeCalls w)
     \<and> (GetEnvironment st (projectName opts) (EnvName opts) = Inr env
         \<and> (OutputDir opts = [] \<or> snd (snd (setFileWriters g opts w)) = None)
         \<and> getTemplates g opts env = (tpl, params, Some e3)
      \<longrightarrow> r = Some e3 \<and> writeCalls w' = writeCalls w)
     \<and> (GetEnvironment st (projectName opts) (EnvName opts) = Inr env
         \<and> (OutputDir opts = [] \<or> snd (snd (setFileWriters g opts w)) = None)
         \<and> getTemplates g opts env = (tpl, params, None)
         \<and> writeOutcome g (templateWriter opts') tpl = Some e4
      \<longrightarrow> r = Some (External e4)
          \<and> writeCalls w' = writeCalls w @ [(templateWriter opts', tpl)]
          \<and> (OutputDir opts = [] \<longrightarrow> templateWriter opts' = templateWriter opts
                \<and> paramsWriter opts' = paramsWriter opts)
          \<and> (OutputDir opts \<noteq> [] \<longrightarrow> templateWriter opts' \<noteq> paramsWriter opts'))
     \<and> (GetEnvironment st (projectName opts) (EnvName opts) = Inr env
         \<and> (OutputDir opts = [] \<or> snd (snd (setFileWriters g opts w)) = None)
         \<and> ws opts = Some wsp
         \<and> ReadManifestFile wsp (ManifestFileName wsp (AppName opts)) = Inr raw
         \<and> manifest_UnmarshalApp g raw = Inr (LBFargate m)
         \<and> Template g (NewLBFargateStack g \<lparr> App = m, Env = env, ImageTag = Tag opts \<rparr>) =
             (t5, Some e5)
      \<longrightarrow> r = Some e5 \<and> writeCalls w' = writeCalls w)
     \<and> (GetEnvironment st (projectName opts) (EnvName opts) = Inr env
         \<and> (OutputDir opts = [] \<or> snd (snd (setFileWriters g opts w)) = None)
         \<and> ws opts = Some wsp
         \<and> ReadManifestFile wsp (ManifestFileName wsp (AppName opts)) = Inr raw
         \<and> manifest_UnmarshalApp g raw = Inr (LBFargate m)
         \<and> Template g (NewLBFargateStack g \<lparr> App = m, Env = env, ImageTag = Tag opts \<rparr>) =
             (t6, None)
         \<and> SerializedParameters g
               (NewLBFargateStack g \<lparr> App = m, Env = env, ImageTag = Tag opts \<rparr>) =
             (p6, Some e6)
      \<longrightarrow> r = Some e6 \<and> writeCalls w' = writeCalls w)"
proof -
  note fails = Execute_failures [OF run store]
  have c5: "r = Some e5 \<and> writeCalls w' = writeCalls w"
    if h: "GetEnvironment st (projectName opts) (EnvName opts) = Inr env
         \<and> (OutputDir opts = [] \<or> snd (snd (setFileWriters g opts w)) = None)
         \<and> ws opts = Some wsp
         \<and> ReadManifestFile wsp (ManifestFileName wsp (AppName opts)) = Inr raw
         \<and> manifest_UnmarshalApp g raw = Inr (LBFargate m)
         \<and> Template g (NewLBFargateStack g \<lparr> App = m, Env = env, ImageTag = Tag opts \<rparr>) =
             (t5, Some e5)"
  proof -
    from h have "getTemplates g opts env = ([], [], Some e5)"
      using getTemplates_first_render_fails by blast
    with h fails [where env = env and tpl = "[]" and params = "[]" and ?e3.0 = e5]
    show ?thesis by blast
  qed
  have c6: "r = Some e6 \<and> writeCalls w' = writeCalls w"
    if h: "GetEnvironment st (projectName opts) (EnvName opts) = Inr env
         \<and> (OutputDir opts = [] \<or> snd (snd (setFileWriters g opts w)) = None)
         \<and> ws opts = Some wsp
         \<and> ReadManifestFile wsp (ManifestFileName wsp (AppName opts)) = Inr raw
         \<and> manifest_UnmarshalApp g raw = Inr (LBFargate m)
         \<and> Template g (NewLBFargateStack g \<lparr> App = m, Env = env, ImageTag = Tag opts \<rparr>) =
             (t6, None)
         \<and> SerializedParameters g
               (NewLBFargateStack g \<lparr> App = m, Env = env, ImageTag = Tag opts \<rparr>) =
             (p6, Some e6)"
  proof -
    from h have "getTemplates g opts env = (t6, p6, Some e6)"
      using getTemplates_second_render_fails by blast
    with h fails [where env = env and tpl = t6 and params = p6 and ?e3.0 = e6]
    show ?thesis by blast
  qed
  from fails [where env = env and tpl = tpl and params = params and ?e1.0 = e1
      and ?e2.0 = e2 and ?e3.0 = e3 and ?e4.0 = e4] c5 c6
  show ?thesis by blast
qed

theorem params_written_last_witness:
  "snd (snd (Execute demoPkg (demoOpts\<lparr>EnvName := ''prod''\<rparr>) emptyWorld)) =
     Some (External (ExtError ''environment not found''))
   \<and> writeCalls (fst (snd (Execute demoPkg (demoOpts\<lparr>EnvName := ''prod''\<rparr>) emptyWorld))) = []
   \<and> snd (snd (Execute demoPkg (demoOpts\<lparr>OutputDir := ''./out'', fs := readOnlyFs\<rparr>)
        emptyWorld)) =
       Some (WrapError ''create file out/frontend.stack.yml: permission denied''
         (ExtError ''permission denied''))
   \<and> writeCalls (fst (snd (Execute demoPkg (demoOpts\<lparr>OutputDir := ''./out'', fs := readOnlyFs\<rparr>)
        emptyWorld))) = []
   \<and> snd (snd (Execute demoPkg (demoOpts\<lparr>AppName := ''worker''\<rparr>) emptyWorld)) =
       Some (ErrorString
         ''create CloudFormation template for manifest of type *manifest.WorkerManifest'')
   \<and> writeCalls (fst (snd (Execute demoPkg (demoOpts\<lparr>AppName := ''worker''\<rparr>) emptyWorld))) = []
   \<and> snd (snd (Execute brokenPkg demoOpts emptyWorld)) =
       Some (WrapError
         ''execute CloudFormation template for Load Balanced Web App: can't evaluate field X''
         (ExtError ''can't evaluate field X''))
   \<and> writeCalls (fst (snd (Execute brokenPkg demoOpts emptyWorld))) = []
   \<and> Template brokenParamsPkg
       (NewLBFargateStack brokenParamsPkg
          \<lparr> App = demoManifest, Env = demoEnv, ImageTag = ''latest'' \<rparr>) =
       (''Service: frontend'', None)
   \<and> snd (snd (Execute brokenParamsPkg demoOpts emptyWorld)) =
       Some (WrapError
         ''execute stack configuration for Load Balanced Web App: can't evaluate field P''
         (ExtError ''can't evaluate field P''))
   \<and> writeCalls (fst (snd (Execute brokenParamsPkg demoOpts emptyWorld))) = []
   \<and> snd (snd (Execute brokenPipePkg demoOpts emptyWorld)) =
       Some (External (ExtError ''broken pipe''))
   \<and> writeCalls (fst (snd (Execute brokenPipePkg demoOpts emptyWorld))) =
       [(Stdout, ''Service: frontend'')]"
proof -
  have store: "envStore (demoOpts\<lparr>EnvName := ''prod''\<rparr>) = Some demoStore"
    "envStore (demoOpts\<lparr>OutputDir := ''./out'', fs := readOnlyFs\<rparr>) = Some demoStore"
    "envStore (demoOpts\<lparr>AppName := ''worker''\<rparr>) = Some demoStore"
    by (simp_all add: demoOpts_fields)
  note lookup_fails =
    params_written_last [OF Execute_collapse store(1),
      where g = demoPkg and w = emptyWorld and ?e1.0 = "ExtError ''environment not found''"]
  note sinks_fail =
    params_written_last [OF Execute_collapse store(2),
      where g = demoPkg and w = emptyWorld and env = demoEnv
        and ?e2.0 = "WrapError ''create file out/frontend.stack.yml: permission denied''
                       (ExtError ''permission denied'')"]
  note decode_fails =
    params_written_last [OF Execute_collapse store(3),
      where g = demoPkg and w = emptyWorld and env = demoEnv and tpl = "[]" and params = "[]"
        and ?e3.0 = "ErrorString
         ''create CloudFormation template for manifest of type *manifest.WorkerManifest''"]
  note first_render_fails =
    params_written_last [OF Execute_collapse demoOpts_fields(7),
      where g = brokenPkg and w = emptyWorld and env = demoEnv and wsp = demoWorkspace
        and raw = "''type: Load Balanced Web App''" and m = demoManifest and ?t5.0 = "[]"
        and ?e5.0 = "WrapError
         ''execute CloudFormation template for Load Balanced Web App: can't evaluate field X''
         (ExtError ''can't evaluate field X'')"]
  note second_render_fails =
    params_written_last [OF Execute_collapse demoOpts_fields(7),
      where g = brokenParamsPkg and w = emptyWorld and env = demoEnv and wsp = demoWorkspace
        and raw = "''type: Load Balanced Web App''" and m = demoManifest
        and ?t6.0 = "''Service: frontend''" and ?p6.0 = "[]"
        and ?e6.0 = "WrapError
         ''execute stack configuration for Load Balanced Web App: can't evaluate field P''
         (ExtError ''can't evaluate field P'')"]
  note write_fails =
    params_written_last [OF Execute_collapse demoOpts_fields(7),
      where g = brokenPipePkg and w = emptyWorld and env = demoEnv
        and tpl = "''Service: frontend''" and params = "''AppName: frontend, EnvName: test''"
        and ?e4.0 = "ExtError ''broken pipe''"]
  have a: "snd (snd (Execute demoPkg (demoOpts\<lparr>EnvName := ''prod''\<rparr>) emptyWorld)) =
     Some (External (ExtError ''environment not found''))
   \<and> writeCalls (fst (snd (Execute demoPkg (demoOpts\<lparr>EnvName := ''prod''\<rparr>) emptyWorld))) = []"
    using lookup_fails by (simp add: demoOpts_fields demoStore_def emptyWorld_fields)
  have b: "snd (snd (Execute demoPkg (demoOpts\<lparr>OutputDir := ''./out'', fs := readOnlyFs\<rparr>)
        emptyWorld)) =
       Some (WrapError ''create file out/frontend.stack.yml: permission denied''
         (ExtError ''permission denied''))
   \<and> writeCalls (fst (snd (Execute demoPkg (demoOpts\<lparr>OutputDir := ''./out'', fs := readOnlyFs\<rparr>)
        emptyWorld))) = []"
    using sinks_fail
    by (simp add: demoOpts_fields demoStore_def setFileWriters_readOnly emptyWorld_fields)
  have c: "snd (snd (Execute demoPkg (demoOpts\<lparr>AppName := ''worker''\<rparr>) emptyWorld)) =
       Some (ErrorString
         ''create CloudFormation template for manifest of type *manifest.WorkerManifest'')
   \<and> writeCalls (fst (snd (Execute demoPkg (demoOpts\<lparr>AppName := ''worker''\<rparr>) emptyWorld))) = []"
    using decode_fails
    by (simp add: demoOpts_fields demoStore_def getTemplates_worker emptyWorld_fields)
  have d: "snd (snd (Execute brokenPkg demoOpts emptyWorld)) =
       Some (WrapError
         ''execute CloudFormation template for Load Balanced Web App: can't evaluate field X''
         (ExtError ''can't evaluate field X''))
   \<and> writeCalls (fst (snd (Execute brokenPkg demoOpts emptyWorld))) = []"
    using first_render_fails
    by (simp add: demoOpts_fields demoStore_def demoWorkspace_def brokenPkg_first_render
        emptyWorld_fields)
  have e: "snd (snd (Execute brokenParamsPkg demoOpts emptyWorld)) =
       Some (WrapError
         ''execute stack configuration for Load Balanced Web App: can't evaluate field P''
         (ExtError ''can't evaluate field P''))
   \<and> writeCalls (fst (snd (Execute brokenParamsPkg demoOpts emptyWorld))) = []"
    using second_render_fails
    by (simp add: demoOpts_fields demoStore_def demoWorkspace_def brokenParamsPkg_renders
        emptyWorld_fields)
  have tw: "templateWriter (fst (Execute brokenPipePkg demoOpts emptyWorld)) = Stdout"
    using Execute_without_output_dir(2) [OF demoOpts_fields(7), of demoEnv brokenPipePkg emptyWorld]
    by (simp add: demoOpts_fields demoStore_def)
  have f: "snd (snd (Execute brokenPipePkg demoOpts emptyWorld)) =
       Some (External (ExtError ''broken pipe''))
   \<and> writeCalls (fst (snd (Execute brokenPipePkg demoOpts emptyWorld))) =
       [(Stdout, ''Service: frontend'')]"
    using write_fails
    by (simp add: demoOpts_fields demoStore_def getTemplates_brokenPipe emptyWorld_fields tw
        writeOutcome_def brokenPipePkg_write)
  from a b c d e f show ?thesis
    by (simp add: brokenParamsPkg_renders)
qed

section \<open>How often the environment is looked up\<close>

lemma Execute_getEnvironmentCalls:
  assumes store: "envStore opts = Some st"
  shows "getEnvironmentCalls (fst (snd (Execute g opts w))) =
           getEnvironmentCalls w @ [(projectName opts, EnvName opts)]"
proof (cases "GetEnvironment st (projectName opts) (EnvName opts)")
  case (Inl e)
  then show ?thesis
    by (simp add: Execute_lookup_error [OF store Inl] callGetEnvironment_frame)
next
  case (Inr env)
  show ?thesis
    by (simp add: Execute_fsCalls(3) [OF store Inr setup_step] setup_getEnvironmentCalls
        callGetEnvironment_frame)
qed

lemma Validate_passes:
  assumes "EnvName opts \<noteq> []" and "snd (Validate opts w) = None"
  shows "fst (Validate opts w) = callGetEnvironment w (projectName opts) (EnvName opts)"
    and "\<exists>st. envStore opts = Some st"
  using assms
  by (auto simp: Validate_def split: if_splits option.splits sum.splits)

lemma Ask_keeps:
  assumes "Ask g opts0 = (opts, r)"
  shows "projectName opts = projectName opts0"
    and "envStore opts = envStore opts0"
    and "EnvName opts0 \<noteq> [] \<Longrightarrow> EnvName opts = EnvName opts0"
  using assms
  by (auto simp: Ask_def split: if_splits sum.splits)

lemma Ask_demo:
  "Ask demoPkg demoOpts = (demoOpts, None)"
  "Ask demoPkg (demoOpts\<lparr>AppName := []\<rparr>) = (demoOpts\<lparr>AppName := ''frontend''\<rparr>, None)"
  by (simp_all add: Ask_def demoOpts_fields listAppNames_def demoWorkspace_def
      demoPrompter_def)

lemma Validate_demo:
  "Validate (demoOpts\<lparr>AppName := ''frontend''\<rparr>) w =
     (callGetEnvironment w ''demo'' ''test'', None)"
  "Validate demoOpts w = (callGetEnvironment w ''demo'' ''test'', None)"
  by (simp_all add: Validate_def demoOpts_fields listAppNames_def demoWorkspace_def
      demoStore_def)

lemma Validate_without_env:
  "EnvName opts = [] \<Longrightarrow> fst (Validate opts w) = w"
  by (simp add: Validate_def split: option.splits sum.splits)

lemma PreRunE_passes:
  assumes "PreRunE g opts w = (optsP, wP, None)"
  shows "projectName optsP = projectName opts" and "EnvName optsP = EnvName opts"
    and "Validate optsP w = (wP, None)"
  using assms
  by (auto simp: PreRunE_def Let_def split: sum.splits prod.splits)

lemma RunE_getEnvironmentCalls:
  assumes ask: "Ask g opts0 = (opts1, None)" and e1: "EnvName opts1 \<noteq> []"
    and v: "snd (Validate opts1 w) = None"
  shows "getEnvironmentCalls (fst (snd (RunE g opts0 w))) =
           getEnvironmentCalls w @
             [(projectName opts0, EnvName opts1), (projectName opts0, EnvName opts1)]"
proof -
  have p: "projectName opts1 = projectName opts0"
    using Ask_keeps(1) [OF ask] .
  obtain st where store: "envStore opts1 = Some st"
    using Validate_passes(2) [OF e1 v] by blast
  have run: "RunE g opts0 w = Execute g opts1 (fst (Validate opts1 w))"
    using ask v by (cases "Validate opts1 w") (simp add: RunE_def)
  show ?thesis
    by (simp add: run Execute_getEnvironmentCalls [OF store] Validate_passes(1) [OF e1 v]
        callGetEnvironment_frame p)
qed

lemma flagOpts_fields:
  "projectName flagOpts = ''demo''" "EnvName flagOpts = ''test''"
  "flagOpts\<lparr>ws := Some demoWorkspace, envStore := Some demoStore\<rparr> = demoOpts"
  by (simp_all add: flagOpts_def demoOpts_def NewPackageAppOpts_def demoPkg_def)

lemma PreRunE_demo:
  "PreRunE demoPkg flagOpts w = (demoOpts, callGetEnvironment w ''demo'' ''test'', None)"
proof -
  have "workspace_New demoPkg = Inr demoWorkspace" "ssm_NewStore demoPkg = Inr demoStore"
    by (simp_all add: demoPkg_def)
  then show ?thesis
    by (simp add: PreRunE_def flagOpts_fields Validate_demo)
qed

lemma promptOpts_fields:
  "projectName ((NewPackageAppOpts demoPkg)\<lparr>AppName := ''frontend''\<rparr>) = ''demo''"
  "EnvName ((NewPackageAppOpts demoPkg)\<lparr>AppName := ''frontend''\<rparr>) = []"
  "(NewPackageAppOpts demoPkg)
     \<lparr>AppName := ''frontend'', ws := Some demoWorkspace, envStore := Some demoStore\<rparr> =
   demoOpts\<lparr>EnvName := []\<rparr>"
  by (simp_all add: demoOpts_def NewPackageAppOpts_def demoPkg_def)

lemma Validate_prompt_demo:
  "Validate (demoOpts\<lparr>EnvName := []\<rparr>) w = (w, None)"
  "Validate (demoOpts\<lparr>EnvName := ''test''\<rparr>) w = (callGetEnvironment w ''demo'' ''test'', None)"
  by (simp_all add: Validate_def demoOpts_fields listAppNames_def demoWorkspace_def
      demoStore_def)

lemma PreRunE_prompt_demo:
  "PreRunE demoPkg ((NewPackageAppOpts demoPkg)\<lparr>AppName := ''frontend''\<rparr>) w =
     (demoOpts\<lparr>EnvName := []\<rparr>, w, None)"
proof -
  have "workspace_New demoPkg = Inr demoWorkspace" "ssm_NewStore demoPkg = Inr demoStore"
    by (simp_all add: demoPkg_def)
  then show ?thesis
    by (simp add: PreRunE_def promptOpts_fields Validate_prompt_demo)
qed

lemma Ask_prompt_demo:
  "Ask demoPkg (demoOpts\<lparr>EnvName := []\<rparr>) = (demoOpts\<lparr>EnvName := ''test''\<rparr>, None)"
proof -
  have "viper_projectFlag demoPkg = ''demo''"
    by (simp add: demoPkg_def)
  then show ?thesis
    by (simp add: Ask_def demoOpts_fields listEnvNames_def demoStore_def demoEnv_def
        demoPrompter_def appPackageEnvNamePrompt_def)
qed

lemma RunE_demo:
  "RunE demoPkg demoOpts w =
     (demoOpts,
      (callGetEnvironment (callGetEnvironment w ''demo'' ''test'') ''demo'' ''test'')
        \<lparr>writeCalls := writeCalls w @
           [(Stdout, ''Service: frontend''), (Discard, ''AppName: frontend, EnvName: test'')]\<rparr>,
      None)"
proof -
  let ?w1 = "callGetEnvironment w ''demo'' ''test''"
  have lookup: "GetEnvironment demoStore (projectName demoOpts) (EnvName demoOpts) = Inr demoEnv"
    by (simp add: demoOpts_fields demoStore_def)
  have step: "(if OutputDir demoOpts \<noteq> [] then setFileWriters demoPkg demoOpts
                 (callGetEnvironment ?w1 (projectName demoOpts) (EnvName demoOpts))
               else (demoOpts,
                     callGetEnvironment ?w1 (projectName demoOpts) (EnvName demoOpts), None)) =
              (demoOpts, callGetEnvironment ?w1 ''demo'' ''test'', None)"
    by (simp add: demoOpts_fields)
  have ex: "Execute demoPkg demoOpts ?w1 =
      (demoOpts,
       (callGetEnvironment ?w1 ''demo'' ''test'')
         \<lparr>writeCalls := writeCalls w @
            [(Stdout, ''Service: frontend''), (Discard, ''AppName: frontend, EnvName: test'')]\<rparr>,
       None)"
    by (simp add: Execute_after_setup [OF demoOpts_fields(7) lookup step] getTemplates_demo
        demoOpts_fields writeOutcome_def demoPkg_fields callGetEnvironment_frame)
  show ?thesis
    by (simp add: RunE_def Ask_demo Validate_demo ex)
qed

text \<open>
  C6 says that in a packaging invocation with an environment name supplied the store's
  \<open>GetEnvironment\<close> is called exactly once for the (project, environment) pair.
  \<open>Validate\<close> looks the environment up to check that it exists and \<open>Execute\<close> looks
  it up again to use it; \<open>PreRunE\<close> runs \<open>Validate\<close>, and \<open>RunE\<close> runs \<open>Validate\<close>
  and \<open>Execute\<close>. The invocation of the scenario, with both names given by flag, makes
  three calls, two of them in \<open>RunE\<close>.
\<close>

theorem GetEnvironment_once_counterexample:
  "EnvName flagOpts = ''test''
   \<and> snd (snd (runCommand demoPkg flagOpts emptyWorld)) = None
   \<and> getEnvironmentCalls (fst (snd (runCommand demoPkg flagOpts emptyWorld))) =
       [(''demo'', ''test''), (''demo'', ''test''), (''demo'', ''test'')]
   \<and> length (getEnvironmentCalls (fst (snd (runCommand demoPkg flagOpts emptyWorld)))) \<noteq> 1
   \<and> snd (snd (RunE demoPkg demoOpts emptyWorld)) = None
   \<and> getEnvironmentCalls (fst (snd (RunE demoPkg demoOpts emptyWorld))) =
       [(''demo'', ''test''), (''demo'', ''test'')]
   \<and> length (getEnvironmentCalls (fst (snd (RunE demoPkg demoOpts emptyWorld)))) \<noteq> 1"
  by (simp add: runCommand_def PreRunE_demo RunE_demo flagOpts_fields callGetEnvironment_frame
      emptyWorld_fields)

text \<open>
  C6, as the code has it: in one invocation of the command (\<open>PreRunE\<close>, then \<open>RunE\<close>:
  \<open>Ask\<close>, \<open>Validate\<close>, \<open>Execute\<close>) in which the environment name is supplied by flag
  and \<open>PreRunE\<close>, \<open>Ask\<close> and \<open>Validate\<close> pass, \<open>GetEnvironment\<close> is called exactly
  three times for the (project, environment) pair: by the \<open>Validate\<close> of \<open>PreRunE\<close>,
  by the \<open>Validate\<close> of \<open>RunE\<close> and by \<open>Execute\<close>. When the name is chosen at the
  prompt instead, it is called exactly twice, by the \<open>Validate\<close> of \<open>RunE\<close> and by
  \<open>Execute\<close>. Taken alone, \<open>Execute\<close> calls it exactly once, a passing \<open>Validate\<close>
  with an environment name calls it exactly once, and \<open>RunE\<close> with an environment name
  supplied calls it exactly twice.
\<close>

theorem GetEnvironment_calls_per_run:
  "(envStore opts = Some st
    \<longrightarrow> getEnvironmentCalls (fst (snd (Execute g opts w))) =
          getEnvironmentCalls w @ [(projectName opts, EnvName opts)])
   \<and> (EnvName opts \<noteq> [] \<and> snd (Validate opts w) = None
    \<longrightarrow> getEnvironmentCalls (fst (Validate opts w)) =
          getEnvironmentCalls w @ [(projectName opts, EnvName opts)])
   \<and> (EnvName opts0 \<noteq> [] \<and> Ask g opts0 = (opts1, None) \<and> snd (Validate opts1 w) = None
    \<longrightarrow> getEnvironmentCalls (fst (snd (RunE g opts0 w))) =
          getEnvironmentCalls w @
            [(projectName opts0, EnvName opts0), (projectName opts0, EnvName opts0)])
   \<and> (EnvName opts0 \<noteq> [] \<and> PreRunE g opts0 w = (optsP, wP, None)
        \<and> Ask g optsP = (optsA, None) \<and> snd (Validate optsA wP) = None
    \<longrightarrow> getEnvironmentCalls (fst (snd (runCommand g opts0 w))) =
          getEnvironmentCalls w @
            [(projectName opts0, EnvName opts0), (projectName opts0, EnvName opts0),
             (projectName opts0, EnvName opts0)])
   \<and> (EnvName opts0 = [] \<and> PreRunE g opts0 w = (optsP, wP, None)
        \<and> Ask g optsP = (optsA, None) \<and> EnvName optsA \<noteq> []
        \<and> snd (Validate optsA wP) = None
    \<longrightarrow> getEnvironmentCalls (fst (snd (runCommand g opts0 w))) =
          getEnvironmentCalls w @
            [(projectName opts0, EnvName optsA), (projectName opts0, EnvName optsA)])"
proof (intro conjI impI)
  assume "envStore opts = Some st"
  then show "getEnvironmentCalls (fst (snd (Execute g opts w))) =
          getEnvironmentCalls w @ [(projectName opts, EnvName opts)]"
    by (rule Execute_getEnvironmentCalls)
next
  assume "EnvName opts \<noteq> [] \<and> snd (Validate opts w) = None"
  then show "getEnvironmentCalls (fst (Validate opts w)) =
          getEnvironmentCalls w @ [(projectName opts, EnvName opts)]"
    by (simp add: Validate_passes(1) callGetEnvironment_frame)
next
  assume h: "EnvName opts0 \<noteq> [] \<and> Ask g opts0 = (opts1, None)
    \<and> snd (Validate opts1 w) = None"
  then have ask: "Ask g opts0 = (opts1, None)" and v: "snd (Validate opts1 w) = None"
    and e0: "EnvName opts0 \<noteq> []"
    by simp_all
  have e: "EnvName opts1 = EnvName opts0"
    using Ask_keeps(3) [OF ask e0] .
  with e0 have e1: "EnvName opts1 \<noteq> []" by simp
  show "getEnvironmentCalls (fst (snd (RunE g opts0 w))) =
          getEnvironmentCalls w @
            [(projectName opts0, EnvName opts0), (projectName opts0, EnvName opts0)]"
    using RunE_getEnvironmentCalls [OF ask e1 v] by (simp add: e)
next
  assume h: "EnvName opts0 \<noteq> [] \<and> PreRunE g opts0 w = (optsP, wP, None)
        \<and> Ask g optsP = (optsA, None) \<and> snd (Validate optsA wP) = None"
  then have pre: "PreRunE g opts0 w = (optsP, wP, None)"
    and ask: "Ask g optsP = (optsA, None)" and v: "snd (Validate optsA wP) = None"
    and e0: "EnvName opts0 \<noteq> []"
    by simp_all
  note pp = PreRunE_passes [OF pre]
  from pp(2) e0 have eP: "EnvName optsP \<noteq> []" by simp
  have eA: "EnvName optsA = EnvName opts0"
    using Ask_keeps(3) [OF ask eP] pp(2) by simp
  with e0 have eA1: "EnvName optsA \<noteq> []" by simp
  have wP: "getEnvironmentCalls wP =
      getEnvironmentCalls w @ [(projectName opts0, EnvName opts0)]"
    using Validate_passes(1) [of optsP w] eP pp by (simp add: callGetEnvironment_frame)
  have cmd: "runCommand g opts0 w = RunE g optsP wP"
    by (simp add: runCommand_def pre)
  show "getEnvironmentCalls (fst (snd (runCommand g opts0 w))) =
          getEnvironmentCalls w @
            [(projectName opts0, EnvName opts0), (projectName opts0, EnvName opts0),
             (projectName opts0, EnvName opts0)]"
    using RunE_getEnvironmentCalls [OF ask eA1 v] by (simp add: cmd wP eA pp(1))
next
  assume h: "EnvName opts0 = [] \<and> PreRunE g opts0 w = (optsP, wP, None)
        \<and> Ask g optsP = (optsA, None) \<and> EnvName optsA \<noteq> []
        \<and> snd (Validate optsA wP) = None"
  then have pre: "PreRunE g opts0 w = (optsP, wP, None)"
    and ask: "Ask g optsP = (optsA, None)" and v: "snd (Validate optsA wP) = None"
    and e0: "EnvName opts0 = []" and eA1: "EnvName optsA \<noteq> []"
    by simp_all
  note pp = PreRunE_passes [OF pre]
  from pp(2) e0 have eP: "EnvName optsP = []" by simp
  have wP: "wP = w"
    using Validate_without_env [OF eP, of w] pp(3) by simp
  have cmd: "runCommand g opts0 w = RunE g optsP wP"
    by (simp add: runCommand_def pre)
  show "getEnvironmentCalls (fst (snd (runCommand g opts0 w))) =
          getEnvironmentCalls w @
            [(projectName opts0, EnvName optsA), (projectName opts0, EnvName optsA)]"
    using RunE_getEnvironmentCalls [OF ask eA1 v] by (simp add: cmd wP pp(1))
qed

theorem GetEnvironment_calls_per_run_witness:
  "getEnvironmentCalls (fst (snd (Execute demoPkg demoOpts emptyWorld))) = [(''demo'', ''test'')]
   \<and> getEnvironmentCalls (fst (Validate (demoOpts\<lparr>AppName := ''frontend''\<rparr>) emptyWorld)) =
       [(''demo'', ''test'')]
   \<and> getEnvironmentCalls (fst (snd (RunE demoPkg (demoOpts\<lparr>AppName := []\<rparr>) emptyWorld))) =
       [(''demo'', ''test''), (''demo'', ''test'')]
   \<and> getEnvironmentCalls (fst (snd (runCommand demoPkg flagOpts emptyWorld))) =
       [(''demo'', ''test''), (''demo'', ''test''), (''demo'', ''test'')]
   \<and> getEnvironmentCalls (fst (snd (runCommand demoPkg
         ((NewPackageAppOpts demoPkg)\<lparr>AppName := ''frontend''\<rparr>) emptyWorld))) =
       [(''demo'', ''test''), (''demo'', ''test'')]"
proof -
  have a: "getEnvironmentCalls (fst (snd (Execute demoPkg demoOpts emptyWorld))) =
      [(''demo'', ''test'')]"
    using GetEnvironment_calls_per_run [where opts = demoOpts and st = demoStore
        and g = demoPkg and w = emptyWorld]
    by (simp add: demoOpts_fields emptyWorld_fields)
  have b: "getEnvironmentCalls (fst (Validate (demoOpts\<lparr>AppName := ''frontend''\<rparr>) emptyWorld)) =
       [(''demo'', ''test'')]
   \<and> getEnvironmentCalls (fst (snd (RunE demoPkg (demoOpts\<lparr>AppName := []\<rparr>) emptyWorld))) =
       [(''demo'', ''test''), (''demo'', ''test'')]"
    using GetEnvironment_calls_per_run [where opts = "demoOpts\<lparr>AppName := ''frontend''\<rparr>"
        and g = demoPkg and w = emptyWorld and ?opts0.0 = "demoOpts\<lparr>AppName := []\<rparr>"
        and ?opts1.0 = "demoOpts\<lparr>AppName := ''frontend''\<rparr>"]
    by (simp add: demoOpts_fields emptyWorld_fields Ask_demo Validate_demo)
  have c: "getEnvironmentCalls (fst (snd (runCommand demoPkg flagOpts emptyWorld))) =
       [(''demo'', ''test''), (''demo'', ''test''), (''demo'', ''test'')]"
    using GetEnvironment_calls_per_run [where g = demoPkg and w = emptyWorld
        and ?opts0.0 = flagOpts and optsP = demoOpts
        and wP = "callGetEnvironment emptyWorld ''demo'' ''test''" and optsA = demoOpts]
    by (simp add: flagOpts_fields emptyWorld_fields PreRunE_demo Ask_demo Validate_demo)
  have d: "getEnvironmentCalls (fst (snd (runCommand demoPkg
         ((NewPackageAppOpts demoPkg)\<lparr>AppName := ''frontend''\<rparr>) emptyWorld))) =
       [(''demo'', ''test''), (''demo'', ''test'')]"
    using GetEnvironment_calls_per_run [where g = demoPkg and w = emptyWorld
        and ?opts0.0 = "(NewPackageAppOpts demoPkg)\<lparr>AppName := ''frontend''\<rparr>"
        and optsP = "demoOpts\<lparr>EnvName := []\<rparr>" and wP = emptyWorld
        and optsA = "demoOpts\<lparr>EnvName := ''test''\<rparr>"]
    by (simp add: promptOpts_fields emptyWorld_fields PreRunE_prompt_demo Ask_prompt_demo
        Validate_prompt_demo)
  from a b c d show ?thesis by simp
qed

end
